theory Spec2Isabelle
  imports Complex_Main "HOL-Library.Sublist"
begin

section \<open>Progress normalisation (ffmpeg-service.ts, logProgress)\<close>

text \<open>
  The four module-level variables of ffmpeg-service.ts that logProgress reads and
  writes. Their initial values are those of the declarations (0, 0, 0, false).
\<close>

record progress_state =
  highestSeenPercentage :: int
  lastReportedPercent :: int
  consecutiveZeros :: int
  inNewProcess :: bool

definition initial_progress :: progress_state where
  "initial_progress =
     \<lparr>highestSeenPercentage = 0, lastReportedPercent = 0,
      consecutiveZeros = 0, inNewProcess = False\<rparr>"

text \<open>
  The first block of logProgress: the bookkeeping on a zero or non-zero reading.
  The result says whether the function returns at once (the suppressed zero).
\<close>

definition track_zero :: "int \<Rightarrow> progress_state \<Rightarrow> bool \<times> progress_state" where
  "track_zero validPercent s =
     (if validPercent = 0 then
        (let s1 = s\<lparr>consecutiveZeros := consecutiveZeros s + 1\<rparr> in
         if consecutiveZeros s1 \<ge> 2 \<and> lastReportedPercent s1 \<ge> 99
         then (False, s1\<lparr>highestSeenPercentage := 0, inNewProcess := True\<rparr>)
         else if \<not> inNewProcess s1 \<and> highestSeenPercentage s1 > 50
         then (True, s1)
         else (False, s1))
      else (False, s\<lparr>consecutiveZeros := 0, inNewProcess := False\<rparr>))"

text \<open>
  logProgress percent: the value printed (None when the call prints nothing) and the
  updated variables. The argument is a finite JavaScript number; \<open>percent || 0\<close>
  leaves such a number unchanged.
\<close>

definition logProgress :: "real \<Rightarrow> progress_state \<Rightarrow> int option \<times> progress_state" where
  "logProgress percent s =
     (let validPercent0 = min (max \<lfloor>percent\<rfloor> 0) 100;
          (returned, s1) = track_zero validPercent0 s
      in if returned then (None, s1)
         else
           (let validPercent =
                  (if \<not> inNewProcess s1
                      \<and> validPercent0 < highestSeenPercentage s1 - 5
                      \<and> highestSeenPercentage s1 > 10
                   then lastReportedPercent s1 else validPercent0);
                s2 = (if validPercent > highestSeenPercentage s1
                      then s1\<lparr>highestSeenPercentage := validPercent\<rparr> else s1)
            in if \<bar>validPercent - lastReportedPercent s2\<bar> < 2
                  \<and> validPercent \<noteq> 0 \<and> validPercent \<noteq> 100
               then (None, s2)
               else (Some validPercent, s2\<lparr>lastReportedPercent := validPercent\<rparr>)))"

text \<open>Feeding a sequence of readings: the list of what each call printed, and the
  variables after the last call.\<close>

fun feed :: "real list \<Rightarrow> progress_state \<Rightarrow> int option list \<times> progress_state" where
  "feed [] s = ([], s)"
| "feed (p # ps) s =
     (let (out, s1) = logProgress p s; (outs, s2) = feed ps s1 in (out # outs, s2))"

definition emitted :: "int option list \<Rightarrow> int list" where
  "emitted outs = map the (filter (\<lambda>out. out \<noteq> None) outs)"

section \<open>Outcomes of calls and the state of the machine\<close>

text \<open>
  A call either returns a value or throws; both are values of the model. The third
  outcome is an exception raised inside an event listener of the codec engine: it is
  raised outside the promise the caller awaits, so no \<open>catch\<close> or \<open>finally\<close> of the
  caller sees it and the call never completes.
\<close>

datatype 'a completion = Returns 'a | Throws string | Escapes string

text \<open>
  Local paths are lists of components (what path.join builds from its arguments);
  identifiers used as components are taken to contain no separator. The root is \<open>[]\<close>.
  A filesystem is an association list from paths to nodes, each with its modification
  time (mtimeMs); a file also has its content.
\<close>

type_synonym path = "string list"

datatype node = Dir int | File int string

type_synonym filesystem = "(path \<times> node) list"

datatype fs_op = OpMkdir | OpRm | OpStat | OpReaddir | OpWrite | OpCopy | OpRead

datatype status = pending | completed | failed

text \<open>
  What the engine is asked to do with its inputs: render one clip of the given duration
  (with or without a subtitle file), copy a single input's streams (\<open>-c copy\<close>), or
  concatenate n inputs and re-encode.
\<close>

datatype engine_job = Render real "string option" | StreamCopy | Concat nat

text \<open>What the outside world has been asked to do, in order.\<close>

datatype event =
    Fetched string
  | SegmentUpdated string "string option" "status option"
  | VideoUpdated string status "string option"
  | Uploaded string string string
  | Probed path
  | EngineRun "path list" path engine_job
  | CleanupScheduled string
  | Archived nat

record state =
  step :: nat
  fs :: filesystem
  trace :: "event list"

type_synonym 'a io = "state \<Rightarrow> 'a completion \<times> state"

text \<open>The reply \<open>{ data, error }\<close> of the database client, or a rejected call.\<close>

datatype 'a reply = Reply "string option" "'a option" | Rejected string

datatype response = Response bool string | NetworkError string

datatype engine_result = EngineError string | EngineEnd string

record video_row =
  video_storyId :: "string option"

record segment_ref =
  seg_id :: string
  sortedIndex :: int

record segment_row =
  imageURL :: "string option"
  audioURL :: "string option"
  storyId :: string

datatype payload = NoPayload | NonObject | Object "string option"

record queue_message =
  msg_id :: nat
  message :: payload

text \<open>
  Everything the program does not decide itself: the configuration, and the answers of
  the database, the network, the storage service, the codec engine and the operating
  system. Each answer may depend on the number of interactions made so far (\<open>step\<close>),
  so the same question can be answered differently the second time. \<open>wallclock\<close> is
  what Date.now() returns at a given step. \<open>fs_fault\<close> says which filesystem calls the
  operating system refuses (permissions, a busy file, an entry that has vanished);
  \<open>URL_protocol\<close> is the URL parser of the platform. The database reads are questions to
  the environment and not reads of a modelled table: the program never writes the
  columns it reads (storyId, sortedIndex, imageURL, audioURL).
\<close>

record env =
  tempDir :: path
  storageBucket :: string
  queue_name :: string
  supabasePublic :: bool
  supabasePGMQPublic :: bool
  wallclock :: "nat \<Rightarrow> int"
  fs_fault :: "nat \<Rightarrow> fs_op \<Rightarrow> path \<Rightarrow> bool"
  URL_protocol :: "string \<Rightarrow> string option"
  fetch :: "nat \<Rightarrow> string \<Rightarrow> response"
  select_video :: "nat \<Rightarrow> string \<Rightarrow> video_row reply"
  select_segments :: "nat \<Rightarrow> string \<Rightarrow> segment_ref list reply"
  select_segment :: "nat \<Rightarrow> string \<Rightarrow> segment_row reply"
  update_segment :: "nat \<Rightarrow> string \<Rightarrow> string option \<Rightarrow> status option \<Rightarrow> nat reply"
  update_video :: "nat \<Rightarrow> string \<Rightarrow> status \<Rightarrow> string option \<Rightarrow> unit reply"
  storage_upload :: "nat \<Rightarrow> string \<Rightarrow> string \<Rightarrow> string option"
  getPublicUrl :: "string \<Rightarrow> string"
  importFFmpeg :: "nat \<Rightarrow> bool"
  ffprobe :: "nat \<Rightarrow> path \<Rightarrow> string + real"
  ffmpeg_run :: "nat \<Rightarrow> path list \<Rightarrow> engine_result"
  queue_pop :: "nat \<Rightarrow> queue_message list reply"
  queue_archive :: "nat \<Rightarrow> nat \<Rightarrow> unit reply"

definition processingDir :: string where
  "processingDir = ''processing''"

definition tick :: "state \<Rightarrow> state" where
  "tick s = s\<lparr>step := step s + 1\<rparr>"

definition emit :: "event \<Rightarrow> state \<Rightarrow> state" where
  "emit ev s = s\<lparr>trace := trace s @ [ev]\<rparr>"

subsection \<open>Sequencing, try/catch and try/finally\<close>

definition andThen :: "'a io \<Rightarrow> ('a \<Rightarrow> 'b io) \<Rightarrow> 'b io" where
  "andThen m f s =
     (case m s of
        (Returns a, s1) \<Rightarrow> f a s1
      | (Throws x, s1) \<Rightarrow> (Throws x, s1)
      | (Escapes x, s1) \<Rightarrow> (Escapes x, s1))"

definition ret :: "'a \<Rightarrow> 'a io" where
  "ret a s = (Returns a, s)"

definition throw :: "string \<Rightarrow> 'a io" where
  "throw x s = (Throws x, s)"

definition tryCatch :: "'a io \<Rightarrow> (string \<Rightarrow> 'a io) \<Rightarrow> 'a io" where
  "tryCatch m h s =
     (case m s of
        (Throws x, s1) \<Rightarrow> h x s1
      | r \<Rightarrow> r)"

text \<open>
  try/finally: the finaliser runs after a return and after a throw; if the finaliser
  itself throws, that exception replaces the outcome of the block.
\<close>

definition tryFinally :: "'a io \<Rightarrow> unit io \<Rightarrow> 'a io" where
  "tryFinally m fin s =
     (case m s of
        (Escapes x, s1) \<Rightarrow> (Escapes x, s1)
      | (r, s1) \<Rightarrow>
          (case fin s1 of
             (Returns u, s2) \<Rightarrow> (r, s2)
           | (Throws y, s2) \<Rightarrow> (Throws y, s2)
           | (Escapes y, s2) \<Rightarrow> (Escapes y, s2)))"

subsection \<open>The filesystem calls (fs module)\<close>

text \<open>
  Each call fails when the environment says so, and when the filesystem itself makes it
  impossible (a file where a directory is needed, a missing parent, a missing source).
  A node keeps the modification time it was created or written with; only the sweep of
  orphaned directories reads these times, and it reads them of entries it has not
  touched.
\<close>

definition lookup :: "filesystem \<Rightarrow> path \<Rightarrow> node option" where
  "lookup f p = map_of f p"

definition is_dir :: "filesystem \<Rightarrow> path \<Rightarrow> bool" where
  "is_dir f p = (p = [] \<or> (case lookup f p of Some (Dir t) \<Rightarrow> True | _ \<Rightarrow> False))"

fun put :: "path \<Rightarrow> node \<Rightarrow> filesystem \<Rightarrow> filesystem" where
  "put p n [] = [(p, n)]"
| "put p n ((q, m) # f) = (if q = p then (p, n) # f else (q, m) # put p n f)"

text \<open>mkdir -p: create every missing directory on the way; fail on a file in the way.\<close>

fun mkdir_p :: "path \<Rightarrow> string list \<Rightarrow> int \<Rightarrow> filesystem \<Rightarrow> filesystem option" where
  "mkdir_p pre [] t f = Some f"
| "mkdir_p pre (c # cs) t f =
     (case lookup f (pre @ [c]) of
        Some (File t' x) \<Rightarrow> None
      | Some (Dir t') \<Rightarrow> mkdir_p (pre @ [c]) cs t f
      | None \<Rightarrow> mkdir_p (pre @ [c]) cs t (put (pre @ [c]) (Dir t) f))"

definition remove_tree :: "path \<Rightarrow> filesystem \<Rightarrow> filesystem" where
  "remove_tree p f = filter (\<lambda>(q, n). \<not> prefix p q) f"

definition children :: "filesystem \<Rightarrow> path \<Rightarrow> string list" where
  "children f p =
     remdups (map (\<lambda>(q, n). last q) (filter (\<lambda>(q, n). q \<noteq> [] \<and> butlast q = p) f))"

definition parent :: "path \<Rightarrow> path" where
  "parent p = butlast p"

definition basename :: "path \<Rightarrow> string" where
  "basename p = (if p = [] then [] else last p)"

definition existsSync :: "path \<Rightarrow> state \<Rightarrow> bool" where
  "existsSync p s = (p = [] \<or> lookup (fs s) p \<noteq> None)"

definition mkdirSync :: "env \<Rightarrow> path \<Rightarrow> unit io" where
  "mkdirSync e p s =
     (if fs_fault e (step s) OpMkdir p then (Throws ''mkdir failed'', tick s)
      else case mkdir_p [] p (wallclock e (step s)) (fs s) of
             None \<Rightarrow> (Throws ''EEXIST'', tick s)
           | Some f \<Rightarrow> (Returns (), tick (s\<lparr>fs := f\<rparr>)))"

text \<open>rmSync with \<open>recursive: true, force: true\<close>: a missing path is not an error.\<close>

definition rmSync :: "env \<Rightarrow> path \<Rightarrow> unit io" where
  "rmSync e p s =
     (if fs_fault e (step s) OpRm p then (Throws ''rm failed'', tick s)
      else (Returns (), tick (s\<lparr>fs := remove_tree p (fs s)\<rparr>)))"

definition readdirSync :: "env \<Rightarrow> path \<Rightarrow> string list io" where
  "readdirSync e p s =
     (if fs_fault e (step s) OpReaddir p \<or> \<not> is_dir (fs s) p
      then (Throws ''readdir failed'', tick s)
      else (Returns (children (fs s) p), tick s))"

text \<open>statSync: the pair (isDirectory(), mtimeMs).\<close>

definition statSync :: "env \<Rightarrow> path \<Rightarrow> (bool \<times> int) io" where
  "statSync e p s =
     (if fs_fault e (step s) OpStat p then (Throws ''stat failed'', tick s)
      else case lookup (fs s) p of
             None \<Rightarrow> (Throws ''ENOENT'', tick s)
           | Some (Dir t) \<Rightarrow> (Returns (True, t), tick s)
           | Some (File t c) \<Rightarrow> (Returns (False, t), tick s))"

definition writeFileSync :: "env \<Rightarrow> path \<Rightarrow> string \<Rightarrow> unit io" where
  "writeFileSync e p c s =
     (if fs_fault e (step s) OpWrite p \<or> p = [] \<or> \<not> is_dir (fs s) (parent p)
         \<or> is_dir (fs s) p
      then (Throws ''write failed'', tick s)
      else (Returns (), tick (s\<lparr>fs := put p (File (wallclock e (step s)) c) (fs s)\<rparr>)))"

definition readFileSync :: "env \<Rightarrow> path \<Rightarrow> string io" where
  "readFileSync e p s =
     (if fs_fault e (step s) OpRead p then (Throws ''read failed'', tick s)
      else case lookup (fs s) p of
             Some (File t c) \<Rightarrow> (Returns c, tick s)
           | _ \<Rightarrow> (Throws ''ENOENT'', tick s))"

definition copyFileSync :: "env \<Rightarrow> path \<Rightarrow> path \<Rightarrow> unit io" where
  "copyFileSync e src dst s =
     (if fs_fault e (step s) OpCopy dst \<or> dst = [] \<or> \<not> is_dir (fs s) (parent dst)
         \<or> is_dir (fs s) dst
      then (Throws ''copy failed'', tick s)
      else case lookup (fs s) src of
             Some (File t c) \<Rightarrow>
               (Returns (), tick (s\<lparr>fs := put dst (File (wallclock e (step s)) c) (fs s)\<rparr>))
           | _ \<Rightarrow> (Throws ''ENOENT'', tick s))"

text \<open>Date.now(), as text, for the names built from it.\<close>

fun digits :: "nat \<Rightarrow> string" where
  "digits n =
     (if n < 10 then [''0123456789'' ! n]
      else digits (n div 10) @ [''0123456789'' ! (n mod 10)])"

declare digits.simps [simp del]

definition show_int :: "int \<Rightarrow> string" where
  "show_int i = (if i < 0 then CHR ''-'' # digits (nat (- i)) else digits (nat i))"

definition Date_now :: "env \<Rightarrow> int io" where
  "Date_now e s = (Returns (wallclock e (step s)), tick s)"

section \<open>Transport: downloadFile (ffmpeg-service.ts)\<close>

definition downloadsDir :: "env \<Rightarrow> path" where
  "downloadsDir e = tempDir e @ [''downloads'']"

text \<open>The staging name \<open>${Date.now()}_${path.basename(filePath)}\<close>.\<close>

definition staging_name :: "int \<Rightarrow> path \<Rightarrow> string" where
  "staging_name now filePath = show_int now @ ''_'' @ basename filePath"

definition do_fetch :: "env \<Rightarrow> string \<Rightarrow> response io" where
  "do_fetch e url s =
     (case fetch e (step s) url of
        NetworkError x \<Rightarrow> (Throws x, tick (emit (Fetched url) s))
      | r \<Rightarrow> (Returns r, tick (emit (Fetched url) s)))"

definition downloadFile_body :: "env \<Rightarrow> string \<Rightarrow> path \<Rightarrow> bool io" where
  "downloadFile_body e url filePath =
     andThen (mkdirSync e (downloadsDir e)) (\<lambda>_.
     andThen (Date_now e) (\<lambda>now.
     let downloadPath = downloadsDir e @ [staging_name now filePath] in
     andThen (do_fetch e url) (\<lambda>response.
       case response of
         Response ok content \<Rightarrow>
           if \<not> ok then throw ''Failed to download file''
           else
             andThen (writeFileSync e downloadPath content) (\<lambda>_.
             andThen (if downloadPath \<noteq> filePath
                      then copyFileSync e downloadPath filePath else ret ()) (\<lambda>_.
             ret True))
       | NetworkError x \<Rightarrow> throw x)))"

definition downloadFile :: "env \<Rightarrow> string \<Rightarrow> path \<Rightarrow> bool io" where
  "downloadFile e url filePath =
     tryCatch (downloadFile_body e url filePath) (\<lambda>error. ret False)"

section \<open>Storage: uploadFile (storage-service.ts)\<close>

text \<open>A JavaScript value used as a condition: null, undefined and the empty string
  are false. Where the model takes \<open>the v\<close> of an optional string, \<open>truthy v\<close> has been
  tested first.\<close>

definition truthy :: "string option \<Rightarrow> bool" where
  "truthy v = (case v of None \<Rightarrow> False | Some u \<Rightarrow> u \<noteq> [])"

definition storagePath :: "string \<Rightarrow> string" where
  "storagePath storageFileName =
     (if prefix ''finalized-videos/'' storageFileName
      then storageFileName else ''videos/'' @ storageFileName)"

definition storage_put :: "env \<Rightarrow> string \<Rightarrow> string \<Rightarrow> unit io" where
  "storage_put e key content s =
     (case storage_upload e (step s) key content of
        Some error \<Rightarrow> (Throws error, tick (emit (Uploaded (storageBucket e) key content) s))
      | None \<Rightarrow> (Returns (), tick (emit (Uploaded (storageBucket e) key content) s)))"

definition uploadFile_body :: "env \<Rightarrow> path \<Rightarrow> string \<Rightarrow> string option io" where
  "uploadFile_body e filePath storageFileName =
     (if \<not> supabasePublic e then throw ''Supabase client is not initialized''
      else
        andThen (readFileSync e filePath) (\<lambda>fileContent.
        andThen (storage_put e (storagePath storageFileName) fileContent) (\<lambda>_.
        ret (Some (getPublicUrl e (storagePath storageFileName))))))"

definition uploadFile :: "env \<Rightarrow> path \<Rightarrow> string \<Rightarrow> string option io" where
  "uploadFile e filePath storageFileName =
     tryCatch (uploadFile_body e filePath storageFileName) (\<lambda>error. ret None)"

section \<open>The codec engine (ffmpeg-service.ts)\<close>

definition processingRoot :: "env \<Rightarrow> path" where
  "processingRoot e = tempDir e @ [processingDir]"

definition logsDir :: "env \<Rightarrow> path" where
  "logsDir e = tempDir e @ [''logs'']"

definition loadFFmpeg :: "env \<Rightarrow> unit io" where
  "loadFFmpeg e s =
     (if importFFmpeg e (step s) then (Returns (), tick s)
      else (Throws ''Failed to load FFmpeg module'', tick s))"

text \<open>fs.createWriteStream with flag a: the log file is created when it is missing. What
  is written to the log is not part of the model.\<close>

definition createWriteStream :: "env \<Rightarrow> path \<Rightarrow> unit io" where
  "createWriteStream e p s =
     (Returns (),
      tick (if lookup (fs s) p = None \<and> is_dir (fs s) (parent p)
            then s\<lparr>fs := put p (File (wallclock e (step s)) []) (fs s)\<rparr> else s))"

definition getAudioDuration :: "env \<Rightarrow> path \<Rightarrow> real io" where
  "getAudioDuration e audioPath =
     tryCatch
       (andThen (loadFFmpeg e) (\<lambda>_ s.
          case ffprobe e (step s) audioPath of
            Inl err \<Rightarrow> (Throws err, tick (emit (Probed audioPath) s))
          | Inr duration \<Rightarrow> (Returns duration, tick (emit (Probed audioPath) s))))
       (\<lambda>error. throw error)"

text \<open>
  One run of the engine, with the listeners the source attaches. On the error event the
  promise is rejected. On the end event the engine has written its output to
  \<open>tempOutputPath\<close>; the listener then copies it to \<open>outputPath\<close> and resolves. A failure
  of that copy is raised inside the listener. The filter graph handed to the engine and
  the progress events (which only print, through logProgress) are not modelled; the
  kind of job is recorded with the run.
\<close>

definition run_engine :: "env \<Rightarrow> path list \<Rightarrow> engine_job \<Rightarrow> path \<Rightarrow> path \<Rightarrow> unit io" where
  "run_engine e inputs job tempOutputPath outputPath s =
     (let s1 = tick (emit (EngineRun inputs tempOutputPath job) s) in
      case ffmpeg_run e (step s) inputs of
        EngineError x \<Rightarrow> (Throws x, s1)
      | EngineEnd content \<Rightarrow>
          if tempOutputPath = [] \<or> \<not> is_dir (fs s) (parent tempOutputPath)
             \<or> is_dir (fs s) tempOutputPath
          then (Throws ''ffmpeg exited with code 1'', s1)
          else
            (let s2 = s1\<lparr>fs := put tempOutputPath (File (wallclock e (step s)) content) (fs s1)\<rparr>
             in if tempOutputPath \<noteq> outputPath
                then (case copyFileSync e tempOutputPath outputPath s2 of
                        (Throws x, s3) \<Rightarrow> (Escapes x, s3)
                      | r \<Rightarrow> r)
                else (Returns (), s2)))"

definition createVideo ::
  "env \<Rightarrow> path \<Rightarrow> path \<Rightarrow> path \<Rightarrow> real \<Rightarrow> string option \<Rightarrow> unit io" where
  "createVideo e imagePath audioPath outputPath duration subtitlesPath =
     tryCatch
       (andThen (mkdirSync e (processingRoot e)) (\<lambda>_.
        andThen (mkdirSync e (logsDir e)) (\<lambda>_.
        andThen (Date_now e) (\<lambda>now.
        andThen (createWriteStream e (logsDir e @ [''ffmpeg-'' @ show_int now @ ''.log''])) (\<lambda>_.
        andThen (loadFFmpeg e) (\<lambda>_.
        run_engine e [imagePath, audioPath] (Render duration subtitlesPath)
          (processingRoot e @ [basename outputPath]) outputPath))))))
       (\<lambda>error. throw error)"

definition merge_job :: "nat \<Rightarrow> engine_job" where
  "merge_job n = (if n = 1 then StreamCopy else Concat n)"

definition mergeVideosWithTransition :: "env \<Rightarrow> path list \<Rightarrow> path \<Rightarrow> real \<Rightarrow> unit io" where
  "mergeVideosWithTransition e videoFiles outputPath transitionDuration =
     tryCatch
       (if length videoFiles = 0 then throw ''No video files provided for merging''
        else
          andThen (mkdirSync e (processingRoot e)) (\<lambda>_.
          andThen (mkdirSync e (logsDir e)) (\<lambda>_.
          andThen (Date_now e) (\<lambda>now.
          andThen (createWriteStream e
                     (logsDir e @ [''ffmpeg-merge-'' @ show_int now @ ''.log''])) (\<lambda>_.
          andThen (loadFFmpeg e) (\<lambda>_.
          run_engine e videoFiles (merge_job (length videoFiles))
            (processingRoot e @ [basename outputPath]) outputPath))))))
       (\<lambda>error. throw error)"

section \<open>Segment processor (segment-processor.ts)\<close>

text \<open>\<open>URL_protocol\<close> is the platform's URL parser: the protocol of \<open>new URL(s)\<close>, or
  None when the constructor throws.\<close>

definition isValidUrl :: "env \<Rightarrow> string \<Rightarrow> bool" where
  "isValidUrl e urlString =
     (case URL_protocol e urlString of
        None \<Rightarrow> False
      | Some protocol \<Rightarrow> protocol = ''http:'' \<or> protocol = ''https:'')"

text \<open>One awaited database call: a rejected call throws, a reply is returned as the
  pair (error, data).\<close>

definition query :: "(nat \<Rightarrow> 'a reply) \<Rightarrow> (string option \<times> 'a option) io" where
  "query f s =
     (case f (step s) of
        Rejected x \<Rightarrow> (Throws x, tick s)
      | Reply error d \<Rightarrow> (Returns (error, d), tick s))"

definition segment_key :: "string \<Rightarrow> string \<Rightarrow> string" where
  "segment_key story segmentId = story @ ''/'' @ segmentId @ ''.mp4''"

definition segmentTempDir :: "env \<Rightarrow> string \<Rightarrow> path" where
  "segmentTempDir e segmentId = processingRoot e @ [segmentId]"

definition processSegment_steps ::
  "env \<Rightarrow> string \<Rightarrow> string \<Rightarrow> string \<Rightarrow> string \<Rightarrow> string option io" where
  "processSegment_steps e segmentId image_url audio_url story =
     (let imagePath = segmentTempDir e segmentId @ [''image.jpg''];
          audioPath = segmentTempDir e segmentId @ [''audio.mp3''];
          videoPath = segmentTempDir e segmentId @ [''output.mp4'']
      in
        andThen (mkdirSync e (downloadsDir e)) (\<lambda>_.
        andThen (downloadFile e image_url imagePath) (\<lambda>imageDownloaded.
        andThen (downloadFile e audio_url audioPath) (\<lambda>audioDownloaded.
        if \<not> imageDownloaded \<or> \<not> audioDownloaded
        then throw ''Failed to download image or audio files''
        else
          andThen (getAudioDuration e audioPath) (\<lambda>duration.
          andThen (createVideo e imagePath audioPath videoPath duration None) (\<lambda>_.
          andThen (uploadFile e videoPath (segment_key story segmentId)) (\<lambda>videoUrl.
          if \<not> truthy videoUrl then throw ''Failed to upload video to storage''
          else ret videoUrl)))))))"

text \<open>Lines 52-99: the workspace is created, the steps run in it, and the finaliser
  removes it; a failure of the removal is caught and logged.\<close>

definition processSegment_workspace ::
  "env \<Rightarrow> string \<Rightarrow> string \<Rightarrow> string \<Rightarrow> string \<Rightarrow> string option io" where
  "processSegment_workspace e segmentId image_url audio_url story =
     andThen (mkdirSync e (segmentTempDir e segmentId)) (\<lambda>_.
     tryFinally
       (processSegment_steps e segmentId image_url audio_url story)
       (tryCatch (rmSync e (segmentTempDir e segmentId)) (\<lambda>cleanupError. ret ())))"

definition processSegment_body :: "env \<Rightarrow> string \<Rightarrow> string option io" where
  "processSegment_body e segmentId =
     (if \<not> supabasePublic e then throw ''Supabase client is not initialized''
      else
        andThen (query (\<lambda>n. select_segment e n segmentId)) (\<lambda>(segmentError, data).
        case data of
          None \<Rightarrow> throw ''Failed to fetch segment''
        | Some segment \<Rightarrow>
            if segmentError \<noteq> None then throw ''Failed to fetch segment''
            else
              (case (imageURL segment, audioURL segment) of
                 (Some image_url, Some audio_url) \<Rightarrow>
                   if image_url = [] \<or> audio_url = []
                   then throw ''Segment is missing image or audio URL''
                   else if \<not> isValidUrl e image_url \<or> \<not> isValidUrl e audio_url
                   then throw ''Segment has invalid image or audio URL format''
                   else processSegment_workspace e segmentId image_url audio_url
                          (storyId segment)
               | _ \<Rightarrow> throw ''Segment is missing image or audio URL'')))"

definition processSegment :: "env \<Rightarrow> string \<Rightarrow> string option io" where
  "processSegment e segmentId =
     tryCatch (processSegment_body e segmentId) (\<lambda>error. ret None)"

section \<open>Temp workspace manager (cleanup-service.ts)\<close>

fun forEach :: "('a \<Rightarrow> unit io) \<Rightarrow> 'a list \<Rightarrow> unit io" where
  "forEach body [] = ret ()"
| "forEach body (x # xs) = andThen (body x) (\<lambda>_. forEach body xs)"

definition exists_io :: "path \<Rightarrow> bool io" where
  "exists_io p s = (Returns (existsSync p s), s)"

definition cleanupTempFiles :: "env \<Rightarrow> path list \<Rightarrow> unit io" where
  "cleanupTempFiles e directories =
     tryCatch
       (forEach (\<lambda>directory.
          andThen (exists_io directory) (\<lambda>found.
          if found then rmSync e directory else ret ())) directories)
       (\<lambda>error. ret ())"

text \<open>The directories of the segments that exist, in order (the inner loop of
  cleanupVideoFiles).\<close>

fun existing_dirs :: "path list \<Rightarrow> path list io" where
  "existing_dirs [] = ret []"
| "existing_dirs (d # ds) =
     andThen (exists_io d) (\<lambda>found.
     andThen (existing_dirs ds) (\<lambda>rest.
     ret (if found then d # rest else rest)))"

definition cleanupVideoFiles :: "env \<Rightarrow> string \<Rightarrow> unit io" where
  "cleanupVideoFiles e videoId =
     tryCatch
       (andThen (existing_dirs [processingRoot e @ [videoId]]) (\<lambda>dirs0.
        andThen
          (if supabasePublic e then
             andThen (query (\<lambda>n. select_video e n videoId)) (\<lambda>(videoError, video).
             case video of
               None \<Rightarrow> ret dirs0
             | Some v \<Rightarrow>
                 if \<not> truthy (video_storyId v) then ret dirs0
                 else
                   andThen (query (\<lambda>n. select_segments e n (the (video_storyId v))))
                     (\<lambda>(segmentsError, segments).
                   case segments of
                     None \<Rightarrow> ret dirs0
                   | Some segs \<Rightarrow>
                       if length segs > 0 then
                         andThen (existing_dirs
                                    (map (\<lambda>g. processingRoot e @ [seg_id g]) segs)) (\<lambda>dirs1.
                         andThen (existing_dirs [downloadsDir e]) (\<lambda>dirs2.
                         ret (dirs0 @ dirs1 @ dirs2)))
                       else ret dirs0))
           else ret dirs0) (\<lambda>dirsToCleanup.
        cleanupTempFiles e dirsToCleanup)))
       (\<lambda>error. ret ())"

definition MAX_AGE_MS :: int where
  "MAX_AGE_MS = 24 * 60 * 60 * 1000"

definition sweep_processing_item :: "env \<Rightarrow> int \<Rightarrow> string \<Rightarrow> unit io" where
  "sweep_processing_item e now item =
     andThen (statSync e (processingRoot e @ [item])) (\<lambda>(isDirectory, mtimeMs).
     if isDirectory \<and> now - mtimeMs > MAX_AGE_MS
     then rmSync e (processingRoot e @ [item]) else ret ())"

definition sweep_download_item :: "env \<Rightarrow> int \<Rightarrow> string \<Rightarrow> unit io" where
  "sweep_download_item e now item =
     andThen (statSync e (downloadsDir e @ [item])) (\<lambda>(isDirectory, mtimeMs).
     if now - mtimeMs > MAX_AGE_MS
     then rmSync e (downloadsDir e @ [item]) else ret ())"

text \<open>The block that checks the processing directory (lines 156-171) and the block
  that checks the downloads directory (lines 173-195).\<close>

definition sweep_processing :: "env \<Rightarrow> int \<Rightarrow> unit io" where
  "sweep_processing e now =
     andThen (exists_io (processingRoot e)) (\<lambda>found.
     if found then
       andThen (readdirSync e (processingRoot e)) (\<lambda>items.
       forEach (sweep_processing_item e now) items)
     else ret ())"

definition sweep_downloads :: "env \<Rightarrow> int \<Rightarrow> unit io" where
  "sweep_downloads e now =
     andThen (exists_io (downloadsDir e)) (\<lambda>found.
     if found then
       andThen (readdirSync e (downloadsDir e)) (\<lambda>items.
       andThen (forEach (sweep_download_item e now) items) (\<lambda>_.
       andThen (readdirSync e (downloadsDir e)) (\<lambda>remainingItems.
       if length remainingItems = 0 then rmSync e (downloadsDir e) else ret ())))
     else ret ())"

definition cleanupOrphanedTempDirectories :: "env \<Rightarrow> unit io" where
  "cleanupOrphanedTempDirectories e =
     tryCatch
       (andThen (exists_io (tempDir e)) (\<lambda>found.
        if \<not> found then ret ()
        else
          andThen (Date_now e) (\<lambda>now.
          andThen (sweep_processing e now) (\<lambda>_.
          sweep_downloads e now))))
       (\<lambda>error. ret ())"

section \<open>Video orchestrator (video-processor.ts)\<close>

definition video_update :: "env \<Rightarrow> string \<Rightarrow> status \<Rightarrow> string option \<Rightarrow> string option io" where
  "video_update e videoId st url s =
     (case update_video e (step s) videoId st url of
        Rejected x \<Rightarrow> (Throws x, tick (emit (VideoUpdated videoId st url) s))
      | Reply error d \<Rightarrow> (Returns error, tick (emit (VideoUpdated videoId st url) s)))"

definition updateVideoStatus :: "env \<Rightarrow> string \<Rightarrow> status \<Rightarrow> string option \<Rightarrow> unit io" where
  "updateVideoStatus e videoId st videoURL =
     tryCatch
       (if \<not> supabasePublic e then throw ''Supabase client is not initialized''
        else
          andThen (video_update e videoId st (if truthy videoURL then videoURL else None))
            (\<lambda>error. ret ()))
       (\<lambda>error. ret ())"

text \<open>An update of one Segment row: the fields of the object passed to \<open>update\<close>
  (a field that is absent from the object is None), and the reply (error, rows).\<close>

definition segment_update ::
  "env \<Rightarrow> string \<Rightarrow> string option \<Rightarrow> status option \<Rightarrow> (string option \<times> nat option) io" where
  "segment_update e segmentId url st s =
     (case update_segment e (step s) segmentId url st of
        Rejected x \<Rightarrow> (Throws x, tick (emit (SegmentUpdated segmentId url st) s))
      | Reply error d \<Rightarrow> (Returns (error, d), tick (emit (SegmentUpdated segmentId url st) s)))"

record processed_segment =
  ps_id :: string
  ps_videoURL :: string
  ps_sortedIndex :: int

text \<open>The local variables of processVideo that the segment loop changes.\<close>

record loop_vars =
  processedSegments :: "processed_segment list"
  tempDirectories :: "path list"
  hasFailedSegments :: bool

text \<open>A statement inside a try block: when it throws, control passes to the handler
  (with the local variables as they are at that point), otherwise to the rest.\<close>

definition inTry :: "'a io \<Rightarrow> (string \<Rightarrow> 'b io) \<Rightarrow> ('a \<Rightarrow> 'b io) \<Rightarrow> 'b io" where
  "inTry m h f s =
     (case m s of
        (Returns a, s1) \<Rightarrow> f a s1
      | (Throws x, s1) \<Rightarrow> h x s1
      | (Escapes x, s1) \<Rightarrow> (Escapes x, s1))"

text \<open>The catch block of one iteration (lines 238-254).\<close>

definition segment_failed :: "env \<Rightarrow> string \<Rightarrow> loop_vars \<Rightarrow> loop_vars io" where
  "segment_failed e segmentId vars =
     andThen (tryCatch (andThen (segment_update e segmentId None (Some failed)) (\<lambda>_. ret ()))
                (\<lambda>updateError. ret ())) (\<lambda>_.
     ret (vars\<lparr>hasFailedSegments := True\<rparr>))"

text \<open>One iteration of the loop over the segments (lines 187-254).\<close>

definition process_one :: "env \<Rightarrow> segment_ref \<Rightarrow> loop_vars \<Rightarrow> loop_vars io" where
  "process_one e segment vars =
     inTry (mkdirSync e (segmentTempDir e (seg_id segment)))
       (\<lambda>segmentError. segment_failed e (seg_id segment) vars) (\<lambda>_.
     let vars1 = vars\<lparr>tempDirectories :=
                        tempDirectories vars @ [segmentTempDir e (seg_id segment)]\<rparr> in
     inTry (processSegment e (seg_id segment))
       (\<lambda>segmentError. segment_failed e (seg_id segment) vars1) (\<lambda>videoURL.
     if truthy videoURL then
       inTry (segment_update e (seg_id segment) videoURL (Some completed))
         (\<lambda>segmentError. segment_failed e (seg_id segment) vars1) (\<lambda>(segmentUpdateError, rows).
       ret (vars1\<lparr>hasFailedSegments :=
                     hasFailedSegments vars1 \<or> segmentUpdateError \<noteq> None,
                   processedSegments :=
                     processedSegments vars1 @
                       [\<lparr>ps_id = seg_id segment, ps_videoURL = the videoURL,
                         ps_sortedIndex = sortedIndex segment\<rparr>]\<rparr>))
     else
       inTry (segment_update e (seg_id segment) None (Some failed))
         (\<lambda>segmentError.
            segment_failed e (seg_id segment) (vars1\<lparr>hasFailedSegments := True\<rparr>))
         (\<lambda>_. ret (vars1\<lparr>hasFailedSegments := True\<rparr>))))"

fun segment_loop :: "env \<Rightarrow> segment_ref list \<Rightarrow> loop_vars \<Rightarrow> loop_vars io" where
  "segment_loop e [] vars = ret vars"
| "segment_loop e (segment # segments) vars =
     andThen (process_one e segment vars) (\<lambda>vars1. segment_loop e segments vars1)"

definition videoTempDir :: "env \<Rightarrow> string \<Rightarrow> path" where
  "videoTempDir e videoId = processingRoot e @ [videoId]"

definition finalized_key :: "string \<Rightarrow> string" where
  "finalized_key videoId = ''finalized-videos/'' @ videoId @ ''.mp4''"

definition fallback_key :: "string \<Rightarrow> string" where
  "fallback_key videoId = ''finalized-videos/'' @ videoId @ ''_fallback.mp4''"

text \<open>The fire-and-forget call \<open>cleanupVideoFiles(videoId).catch(...)\<close>: the cleanup is
  started but not awaited; the trace records that it has been scheduled.\<close>

definition schedule_cleanup :: "string \<Rightarrow> unit io" where
  "schedule_cleanup videoId s = (Returns (), emit (CleanupScheduled videoId) s)"

text \<open>The loop that downloads the clips of the processed segments (lines 310-332).\<close>

fun download_clips :: "env \<Rightarrow> path \<Rightarrow> processed_segment list \<Rightarrow> path list io" where
  "download_clips e dir [] = ret []"
| "download_clips e dir (segment # rest) =
     (if ps_videoURL segment = [] then download_clips e dir rest
      else
        andThen (downloadFile e (ps_videoURL segment)
                   (dir @ [''segment_'' @ ps_id segment @ ''.mp4''])) (\<lambda>downloaded.
        andThen (download_clips e dir rest) (\<lambda>files.
        ret (if downloaded then (dir @ [''segment_'' @ ps_id segment @ ''.mp4'']) # files
             else files))))"

text \<open>
  The try block of the merge (lines 284-385), after the sort. The directory it creates,
  finalVideoDir, is the same path as videoTempDir. The source also pushes it to
  tempDirectories, which nothing reads after the cleanup of line 268.
\<close>

definition merge_try :: "env \<Rightarrow> string \<Rightarrow> processed_segment list \<Rightarrow> string option io" where
  "merge_try e videoId ordered =
     andThen (mkdirSync e (videoTempDir e videoId)) (\<lambda>_.
     andThen (download_clips e (videoTempDir e videoId) ordered) (\<lambda>localVideoFiles.
     if length localVideoFiles = 0
     then andThen (updateVideoStatus e videoId failed None) (\<lambda>_. ret None)
     else
       andThen (mergeVideosWithTransition e localVideoFiles
                  (videoTempDir e videoId @ [videoId @ ''.mp4'']) 0.5) (\<lambda>_.
       andThen (uploadFile e (videoTempDir e videoId @ [videoId @ ''.mp4''])
                  (finalized_key videoId)) (\<lambda>videoURL.
       if \<not> truthy videoURL
       then andThen (updateVideoStatus e videoId failed None) (\<lambda>_. ret None)
       else
         andThen (updateVideoStatus e videoId completed videoURL) (\<lambda>_.
         andThen (schedule_cleanup videoId) (\<lambda>_.
         ret videoURL))))))"

text \<open>The catch block of the merge (lines 386-447): the fallback.\<close>

definition merge_fallback :: "env \<Rightarrow> string \<Rightarrow> processed_segment list \<Rightarrow> string option io" where
  "merge_fallback e videoId ordered =
     (case ordered of
        [] \<Rightarrow> throw ''TypeError''
      | first_segment # others \<Rightarrow>
          tryCatch
            (andThen (mkdirSync e (processingRoot e @ [videoId @ ''_fallback''])) (\<lambda>_.
             andThen (downloadFile e (ps_videoURL first_segment)
                        (processingRoot e @ [videoId @ ''_fallback'', ''segment_fallback.mp4'']))
               (\<lambda>downloaded.
             andThen (if downloaded
                      then andThen (uploadFile e
                                      (processingRoot e @
                                         [videoId @ ''_fallback'', ''segment_fallback.mp4''])
                                      (fallback_key videoId)) (\<lambda>_. ret ())
                      else ret ()) (\<lambda>_.
             andThen (updateVideoStatus e videoId failed (Some (ps_videoURL first_segment))) (\<lambda>_.
             andThen (schedule_cleanup videoId) (\<lambda>_.
             ret None))))))
            (\<lambda>fallbackError.
               andThen (updateVideoStatus e videoId failed None) (\<lambda>_.
               throw fallbackError)))"

definition merge_phase :: "env \<Rightarrow> string \<Rightarrow> processed_segment list \<Rightarrow> string option io" where
  "merge_phase e videoId processed =
     tryCatch (merge_try e videoId (sort_key ps_sortedIndex processed))
       (\<lambda>mergeError. merge_fallback e videoId (sort_key ps_sortedIndex processed))"

text \<open>
  Lines 169-277, from the creation of the video workspace. The segment loop never throws
  (each iteration catches), so the try/finally of lines 185-269 is the loop followed by
  the rest of the try block under the finaliser. An early return is \<open>Some\<close> of the
  returned value.
\<close>

definition process_segments :: "env \<Rightarrow> string \<Rightarrow> segment_ref list \<Rightarrow> string option io" where
  "process_segments e videoId segments =
     andThen (mkdirSync e (videoTempDir e videoId)) (\<lambda>_.
     andThen (segment_loop e segments
                \<lparr>processedSegments = [], tempDirectories = [videoTempDir e videoId],
                 hasFailedSegments = False\<rparr>) (\<lambda>vars.
     andThen (tryFinally
                (if hasFailedSegments vars
                 then andThen (updateVideoStatus e videoId failed None) (\<lambda>_. ret (Some None))
                 else ret None)
                (cleanupTempFiles e (tempDirectories vars))) (\<lambda>early.
     case early of
       Some returned \<Rightarrow> ret returned
     | None \<Rightarrow>
         if length (processedSegments vars) = 0
         then andThen (updateVideoStatus e videoId failed None) (\<lambda>_. ret None)
         else merge_phase e videoId (processedSegments vars))))"

definition processVideo_body :: "env \<Rightarrow> string \<Rightarrow> string option io" where
  "processVideo_body e videoId =
     (if \<not> supabasePublic e then throw ''Supabase client is not initialized''
      else
        andThen (query (\<lambda>n. select_video e n videoId)) (\<lambda>(videoError, video).
        case video of
          None \<Rightarrow> andThen (updateVideoStatus e videoId failed None) (\<lambda>_. ret None)
        | Some v \<Rightarrow>
            if videoError \<noteq> None
            then andThen (updateVideoStatus e videoId failed None) (\<lambda>_. ret None)
            else if \<not> truthy (video_storyId v)
            then andThen (updateVideoStatus e videoId failed None) (\<lambda>_. ret None)
            else
              andThen (updateVideoStatus e videoId pending None) (\<lambda>_.
              andThen (query (\<lambda>n. select_segments e n (the (video_storyId v))))
                (\<lambda>(segmentsError, segments).
              case segments of
                None \<Rightarrow> andThen (updateVideoStatus e videoId failed None) (\<lambda>_. ret None)
              | Some segs \<Rightarrow>
                  if segmentsError \<noteq> None \<or> length segs = 0
                  then andThen (updateVideoStatus e videoId failed None) (\<lambda>_. ret None)
                  else process_segments e videoId segs))))"

definition processVideo :: "env \<Rightarrow> string \<Rightarrow> string option io" where
  "processVideo e videoId =
     tryCatch (processVideo_body e videoId)
       (\<lambda>error.
          andThen (tryCatch (cleanupVideoFiles e videoId) (\<lambda>cleanupError. ret ())) (\<lambda>_.
          andThen (tryCatch (updateVideoStatus e videoId failed None) (\<lambda>updateError. ret ()))
            (\<lambda>_. ret None)))"

section \<open>Queue handler for segments (process-segment-handler.ts)\<close>

record handler_response =
  statusCode :: nat
  body :: "(string \<times> string) list"

definition archive :: "env \<Rightarrow> nat \<Rightarrow> unit io" where
  "archive e message_id s =
     (case queue_archive e (step s) message_id of
        Rejected x \<Rightarrow> (Throws x, tick (emit (Archived message_id) s))
      | Reply error d \<Rightarrow> (Returns (), tick (emit (Archived message_id) s)))"

text \<open>Lines 66-121: the inner try/catch, for a message that carries a segmentId.\<close>

definition handle_segment :: "env \<Rightarrow> nat \<Rightarrow> string \<Rightarrow> handler_response io" where
  "handle_segment e message_id segmentId =
     tryCatch
       (andThen (processSegment e segmentId) (\<lambda>videoURL.
        if \<not> truthy videoURL then throw ''Failed to process segment and create video''
        else
          andThen (segment_update e segmentId videoURL None) (\<lambda>(updateError, updatedSegment).
          if updateError \<noteq> None \<or> updatedSegment = None \<or> updatedSegment = Some 0
          then throw ''Update failed''
          else
            andThen (archive e message_id) (\<lambda>_.
            ret \<lparr>statusCode = 200,
                 body = [(''message'', ''Successfully processed segment '' @ segmentId),
                         (''videoURL'', the videoURL)]\<rparr>))))
       (\<lambda>processingError.
          andThen (archive e message_id) (\<lambda>_.
          ret \<lparr>statusCode = 422,
               body = [(''message'',
                          ''Failed to process segment '' @ segmentId @ ''. Message archived.''),
                       (''error'', processingError)]\<rparr>))"

definition handler :: "env \<Rightarrow> handler_response io" where
  "handler e =
     tryCatch
       (if \<not> supabasePGMQPublic e \<or> \<not> supabasePublic e
        then throw ''Supabase clients not available''
        else
          andThen (query (queue_pop e)) (\<lambda>(error, data).
          case error of
            Some err \<Rightarrow> throw err
          | None \<Rightarrow>
              (case data of
                 None \<Rightarrow> ret \<lparr>statusCode = 200, body = [(''message'', ''No messages in queue'')]\<rparr>
               | Some [] \<Rightarrow>
                   ret \<lparr>statusCode = 200, body = [(''message'', ''No messages in queue'')]\<rparr>
               | Some (q # others) \<Rightarrow>
                   (case message q of
                      Object (Some segmentId) \<Rightarrow>
                        if segmentId = []
                        then andThen (archive e (msg_id q)) (\<lambda>_.
                             ret \<lparr>statusCode = 400,
                                  body = [(''error'', ''Invalid message format''),
                                          (''message'', ''Message archived due to invalid format'')]\<rparr>)
                        else handle_segment e (msg_id q) segmentId
                    | _ \<Rightarrow>
                        andThen (archive e (msg_id q)) (\<lambda>_.
                        ret \<lparr>statusCode = 400,
                             body = [(''error'', ''Invalid message format''),
                                     (''message'', ''Message archived due to invalid format'')]\<rparr>)))))
       (\<lambda>overallError.
          ret \<lparr>statusCode = 500,
               body = [(''error'', ''Overall function failure''), (''message'', overallError)]\<rparr>)"

section \<open>Properties of calls, used to state the results\<close>

text \<open>\<open>adds P m\<close>: whatever the state, the call \<open>m\<close> only appends to the trace, and
  every event it appends satisfies \<open>P\<close>.\<close>

definition adds :: "(event \<Rightarrow> bool) \<Rightarrow> 'a io \<Rightarrow> bool" where
  "adds P m = (\<forall>s. \<exists>evs. trace (snd (m s)) = trace s @ evs \<and> list_all P evs)"


text \<open>An upload event is stored under the key \<open>k\<close>; other events are not concerned.\<close>

definition upload_key_is :: "string \<Rightarrow> event \<Rightarrow> bool" where
  "upload_key_is k ev = (case ev of Uploaded b k' c \<Rightarrow> k' = k | _ \<Rightarrow> True)"

text \<open>An update of a Segment row writes a videoURL exactly when it sets the status to
  completed; and an update that writes a videoURL and no status at all.\<close>

definition url_iff_completed :: "event \<Rightarrow> bool" where
  "url_iff_completed ev =
     (case ev of SegmentUpdated i url st \<Rightarrow> (url \<noteq> None) = (st = Some completed) | _ \<Rightarrow> True)"

definition url_without_status :: "event \<Rightarrow> bool" where
  "url_without_status ev =
     (case ev of SegmentUpdated i url st \<Rightarrow> url \<noteq> None \<and> st = None | _ \<Rightarrow> True)"




text \<open>\<open>completes m\<close>: the call never ends with an exception raised outside the caller's
  reach.\<close>

definition completes :: "'a io \<Rightarrow> bool" where
  "completes m = (\<forall>s x. fst (m s) \<noteq> Escapes x)"



section \<open>A concrete world, for running the model\<close>

text \<open>
  A small world in which everything works: one video \<open>v\<close> of story \<open>s\<close> with the single
  segment \<open>g\<close>, a network that answers every request, a database and a storage service
  that accept everything, an engine that renders. The scenarios below change one answer
  of it at a time.
\<close>

definition demo_env :: env where
  "demo_env =
     \<lparr>tempDir = [''tmp''], storageBucket = ''bucket'', queue_name = ''q'',
      supabasePublic = True, supabasePGMQPublic = True,
      wallclock = (\<lambda>n. int n),
      fs_fault = (\<lambda>n op p. False),
      URL_protocol = (\<lambda>u. if prefix ''https://'' u then Some ''https:''
                          else if prefix ''http://'' u then Some ''http:''
                          else if prefix ''data:'' u then Some ''data:'' else None),
      fetch = (\<lambda>n u. Response True ''bytes''),
      select_video = (\<lambda>n v. Reply None (Some \<lparr>video_storyId = Some ''s''\<rparr>)),
      select_segments = (\<lambda>n story. Reply None (Some [\<lparr>seg_id = ''g'', sortedIndex = 0\<rparr>])),
      select_segment = (\<lambda>n g. Reply None (Some \<lparr>imageURL = Some ''https://i'',
                                                 audioURL = Some ''https://a'',
                                                 storyId = ''s''\<rparr>)),
      update_segment = (\<lambda>n g u st. Reply None (Some 1)),
      update_video = (\<lambda>n v st u. Reply None None),
      storage_upload = (\<lambda>n k c. None),
      getPublicUrl = (\<lambda>k. ''https://st/'' @ k),
      importFFmpeg = (\<lambda>n. True),
      ffprobe = (\<lambda>n p. Inr 1),
      ffmpeg_run = (\<lambda>n inputs. EngineEnd ''mp4''),
      queue_pop = (\<lambda>n. Reply None (Some [\<lparr>msg_id = 7, message = Object (Some ''g'')\<rparr>])),
      queue_archive = (\<lambda>n m. Reply None None)\<rparr>"

definition state0 :: state where
  "state0 = \<lparr>step = 0, fs = [([''tmp''], Dir 0)], trace = []\<rparr>"

text \<open>Scenarios: the same world with one answer changed.\<close>

definition env_offline :: env where
  "env_offline = demo_env\<lparr>fetch := (\<lambda>n u. NetworkError ''fetch failed'')\<rparr>"


definition env_clip_404 :: env where
  "env_clip_404 =
     demo_env\<lparr>fetch := (\<lambda>n u. if u = ''https://st/videos/s/g.mp4''
                              then Response False [] else Response True ''bytes'')\<rparr>"

definition env_upload_rejected :: env where
  "env_upload_rejected =
     demo_env\<lparr>storage_upload := (\<lambda>n k c. if k = ''finalized-videos/v.mp4''
                                       then Some ''rejected'' else None)\<rparr>"

text \<open>The engine fails on the merge (the run with a single input) and the network fails
  at interaction 47, which is the fetch of the fallback download.\<close>

definition env_merge_fails :: env where
  "env_merge_fails =
     demo_env\<lparr>ffmpeg_run := (\<lambda>n inputs. if length inputs = 1
                                     then EngineError ''boom'' else EngineEnd ''mp4''),
               fetch := (\<lambda>n u. if n = 47 then NetworkError ''down''
                              else Response True ''bytes'')\<rparr>"



definition env_no_mkdir :: env where
  "env_no_mkdir = demo_env\<lparr>fs_fault := (\<lambda>n op p. op = OpMkdir)\<rparr>"




text \<open>A state in which a rendered clip is waiting to be uploaded.\<close>

definition state_clip :: state where
  "state_clip =
     \<lparr>step = 0, fs = [([''tmp''], Dir 0), ([''tmp'', ''out.mp4''], File 0 ''mp4'')], trace = []\<rparr>"



section \<open>Rules for evaluating the model on a concrete world\<close>

lemma digits_numeral:
  "digits (numeral k) =
     (if (numeral k :: nat) < 10 then [''0123456789'' ! numeral k]
      else digits (numeral k div 10) @ [''0123456789'' ! (numeral k mod 10)])"
  by (subst digits.simps) simp

lemma digits_0: "digits 0 = ''0''"
  by (subst digits.simps) simp

lemma digits_1: "digits 1 = ''1''"
  by (subst digits.simps) simp

lemma digits_Suc_0: "digits (Suc 0) = ''1''"
  by (subst digits.simps) simp

lemmas combinator_defs = andThen_def ret_def throw_def tryCatch_def tryFinally_def inTry_def
  tick_def emit_def

lemmas fs_defs = lookup_def is_dir_def remove_tree_def children_def parent_def
  basename_def existsSync_def mkdirSync_def rmSync_def readdirSync_def statSync_def
  writeFileSync_def readFileSync_def copyFileSync_def createWriteStream_def exists_io_def
  Date_now_def show_int_def staging_name_def digits_numeral digits_0 digits_1 digits_Suc_0

lemmas service_defs = downloadsDir_def do_fetch_def downloadFile_body_def downloadFile_def
  truthy_def storagePath_def storage_put_def uploadFile_body_def uploadFile_def
  processingRoot_def processingDir_def logsDir_def loadFFmpeg_def getAudioDuration_def
  run_engine_def createVideo_def merge_job_def mergeVideosWithTransition_def
  isValidUrl_def query_def segment_key_def segmentTempDir_def processSegment_steps_def
  processSegment_workspace_def processSegment_body_def processSegment_def
  cleanupTempFiles_def cleanupVideoFiles_def MAX_AGE_MS_def sweep_processing_item_def
  sweep_download_item_def sweep_processing_def sweep_downloads_def
  cleanupOrphanedTempDirectories_def

lemmas video_defs = video_update_def updateVideoStatus_def segment_update_def
  segment_failed_def process_one_def videoTempDir_def finalized_key_def fallback_key_def
  schedule_cleanup_def merge_try_def merge_fallback_def merge_phase_def
  process_segments_def processVideo_body_def processVideo_def archive_def
  handle_segment_def handler_def

lemmas eval_defs = combinator_defs fs_defs service_defs video_defs demo_env_def state0_def
  Let_def

section \<open>The filesystem: what the calls keep\<close>



section \<open>Transport: downloadFile\<close>













section \<open>Segment processor: processSegment\<close>


lemma lookup_remove_tree_under: "prefix p q \<Longrightarrow> lookup (remove_tree p f) q = None"
  by (induction f) (auto simp: lookup_def remove_tree_def)

lemma tryCatch_never_throws: "fst (tryCatch m (\<lambda>error. ret a) s) \<noteq> Throws x"
  by (cases "m s" rule: prod.exhaust; cases "fst (m s)")
     (auto simp: tryCatch_def ret_def split: completion.splits)




subsection \<open>Directories are kept\<close>





subsection \<open>Rules for settles\<close>













































section \<open>Rules for the trace\<close>

lemma addsI: "(\<And>s. \<exists>evs. trace (snd (m s)) = trace s @ evs \<and> list_all P evs) \<Longrightarrow> adds P m"
  by (simp add: adds_def)

lemma addsD: "adds P m \<Longrightarrow> \<exists>evs. trace (snd (m s)) = trace s @ evs \<and> list_all P evs"
  by (simp add: adds_def)

lemma adds_ret: "adds P (ret a)"
  by (simp add: adds_def ret_def)

lemma adds_throw: "adds P (throw x)"
  by (simp add: adds_def throw_def)

lemma adds_andThen:
  assumes "adds P m" and "\<And>a. adds P (f a)"
  shows "adds P (andThen m f)"
proof (rule addsI)
  fix s
  obtain r s1 where m: "m s = (r, s1)" by (cases "m s")
  from addsD [OF assms(1), of s] m obtain evs where
    e1: "trace s1 = trace s @ evs" "list_all P evs" by auto
  show "\<exists>evs. trace (snd (andThen m f s)) = trace s @ evs \<and> list_all P evs"
  proof (cases r)
    case (Returns a)
    from addsD [OF assms(2), of a s1] obtain evs2 where
      "trace (snd (f a s1)) = trace s1 @ evs2" "list_all P evs2" by auto
    with e1 m Returns show ?thesis by (simp add: andThen_def)
  next
    case (Throws x)
    with e1 m show ?thesis by (simp add: andThen_def)
  next
    case (Escapes x)
    with e1 m show ?thesis by (simp add: andThen_def)
  qed
qed

lemma adds_inTry:
  assumes "adds P m" and "\<And>x. adds P (h x)" and "\<And>a. adds P (f a)"
  shows "adds P (inTry m h f)"
proof (rule addsI)
  fix s
  obtain r s1 where m: "m s = (r, s1)" by (cases "m s")
  from addsD [OF assms(1), of s] m obtain evs where
    e1: "trace s1 = trace s @ evs" "list_all P evs" by auto
  show "\<exists>evs. trace (snd (inTry m h f s)) = trace s @ evs \<and> list_all P evs"
  proof (cases r)
    case (Returns a)
    from addsD [OF assms(3), of a s1] obtain evs2 where
      "trace (snd (f a s1)) = trace s1 @ evs2" "list_all P evs2" by auto
    with e1 m Returns show ?thesis by (simp add: inTry_def)
  next
    case (Throws x)
    from addsD [OF assms(2), of x s1] obtain evs2 where
      "trace (snd (h x s1)) = trace s1 @ evs2" "list_all P evs2" by auto
    with e1 m Throws show ?thesis by (simp add: inTry_def)
  next
    case (Escapes x)
    with e1 m show ?thesis by (simp add: inTry_def)
  qed
qed

lemma adds_tryCatch:
  assumes "adds P m" and "\<And>x. adds P (h x)"
  shows "adds P (tryCatch m h)"
proof (rule addsI)
  fix s
  obtain r s1 where m: "m s = (r, s1)" by (cases "m s")
  from addsD [OF assms(1), of s] m obtain evs where
    e1: "trace s1 = trace s @ evs" "list_all P evs" by auto
  show "\<exists>evs. trace (snd (tryCatch m h s)) = trace s @ evs \<and> list_all P evs"
  proof (cases r)
    case (Returns a)
    with e1 m show ?thesis by (simp add: tryCatch_def)
  next
    case (Throws x)
    from addsD [OF assms(2), of x s1] obtain evs2 where
      "trace (snd (h x s1)) = trace s1 @ evs2" "list_all P evs2" by auto
    with e1 m Throws show ?thesis by (simp add: tryCatch_def)
  next
    case (Escapes x)
    with e1 m show ?thesis by (simp add: tryCatch_def)
  qed
qed

lemma adds_tryFinally:
  assumes "adds P m" and "adds P fin"
  shows "adds P (tryFinally m fin)"
proof (rule addsI)
  fix s
  obtain r s1 where m: "m s = (r, s1)" by (cases "m s")
  from addsD [OF assms(1), of s] m obtain evs where
    e1: "trace s1 = trace s @ evs" "list_all P evs" by auto
  obtain r2 s2 where f: "fin s1 = (r2, s2)" by (cases "fin s1")
  from addsD [OF assms(2), of s1] f obtain evs2 where
    e2: "trace s2 = trace s1 @ evs2" "list_all P evs2" by auto
  show "\<exists>evs. trace (snd (tryFinally m fin s)) = trace s @ evs \<and> list_all P evs"
    using e1 e2 m f by (cases r; cases r2) (auto simp: tryFinally_def)
qed

lemma adds_if: "(c \<Longrightarrow> adds P a) \<Longrightarrow> (\<not> c \<Longrightarrow> adds P b) \<Longrightarrow> adds P (if c then a else b)"
  by simp

lemma adds_quiet: "(\<And>s. trace (snd (m s)) = trace s) \<Longrightarrow> adds P m"
  by (simp add: adds_def)

lemma adds_mkdirSync: "adds P (mkdirSync e p)"
  by (rule adds_quiet) (simp add: mkdirSync_def tick_def split: option.splits)

lemma adds_rmSync: "adds P (rmSync e p)"
  by (rule adds_quiet) (simp add: rmSync_def tick_def)

lemma adds_readdirSync: "adds P (readdirSync e p)"
  by (rule adds_quiet) (simp add: readdirSync_def tick_def)

lemma adds_statSync: "adds P (statSync e p)"
  by (rule adds_quiet) (simp add: statSync_def tick_def split: option.splits node.splits)

lemma adds_writeFileSync: "adds P (writeFileSync e p c)"
  by (rule adds_quiet) (simp add: writeFileSync_def tick_def)

lemma adds_readFileSync: "adds P (readFileSync e p)"
  by (rule adds_quiet) (simp add: readFileSync_def tick_def split: option.splits node.splits)

lemma adds_copyFileSync: "adds P (copyFileSync e p q)"
  by (rule adds_quiet) (simp add: copyFileSync_def tick_def split: option.splits node.splits)

lemma adds_Date_now: "adds P (Date_now e)"
  by (rule adds_quiet) (simp add: Date_now_def tick_def)

lemma adds_exists_io: "adds P (exists_io p)"
  by (rule adds_quiet) (simp add: exists_io_def)

lemma adds_query: "adds P (query f)"
  by (rule adds_quiet) (simp add: query_def tick_def split: reply.splits)

lemma adds_loadFFmpeg: "adds P (loadFFmpeg e)"
  by (rule adds_quiet) (simp add: loadFFmpeg_def tick_def)

lemma adds_createWriteStream: "adds P (createWriteStream e p)"
  by (rule adds_quiet) (simp add: createWriteStream_def tick_def)

lemma adds_do_fetch: "P (Fetched url) \<Longrightarrow> adds P (do_fetch e url)"
  by (rule addsI) (simp add: do_fetch_def tick_def emit_def split: response.splits)

lemma adds_storage_put: "P (Uploaded (storageBucket e) key content) \<Longrightarrow> adds P (storage_put e key content)"
  by (rule addsI) (simp add: storage_put_def tick_def emit_def split: option.splits)

lemma adds_video_update: "P (VideoUpdated videoId st url) \<Longrightarrow> adds P (video_update e videoId st url)"
  by (rule addsI) (simp add: video_update_def tick_def emit_def split: reply.splits)

lemma adds_segment_update:
  "P (SegmentUpdated segmentId url st) \<Longrightarrow> adds P (segment_update e segmentId url st)"
  by (rule addsI) (simp add: segment_update_def tick_def emit_def split: reply.splits)

lemma adds_archive: "P (Archived n) \<Longrightarrow> adds P (archive e n)"
  by (rule addsI) (simp add: archive_def tick_def emit_def split: reply.splits)

lemma adds_schedule_cleanup: "P (CleanupScheduled videoId) \<Longrightarrow> adds P (schedule_cleanup videoId)"
  by (rule addsI) (simp add: schedule_cleanup_def emit_def)

lemma adds_run_engine:
  "P (EngineRun inputs tempOutputPath job) \<Longrightarrow> adds P (run_engine e inputs job tempOutputPath outputPath)"
  by (rule addsI)
     (auto simp: run_engine_def copyFileSync_def tick_def emit_def Let_def
       split: engine_result.splits option.splits node.splits prod.splits completion.splits)

lemmas adds_rules = adds_ret adds_throw adds_andThen adds_inTry adds_tryCatch adds_tryFinally
  adds_mkdirSync adds_rmSync adds_readdirSync adds_statSync adds_writeFileSync
  adds_readFileSync adds_copyFileSync adds_Date_now adds_exists_io adds_query
  adds_loadFFmpeg adds_createWriteStream adds_do_fetch adds_storage_put adds_video_update
  adds_segment_update adds_archive adds_schedule_cleanup adds_run_engine

lemma adds_forEach: "(\<And>x. adds P (f x)) \<Longrightarrow> adds P (forEach f xs)"
  by (induction xs) (auto intro!: adds_rules)

lemma adds_existing_dirs: "adds P (existing_dirs ds)"
  by (induction ds) (auto intro!: adds_rules)

lemma adds_downloadFile: "P (Fetched url) \<Longrightarrow> adds P (downloadFile e url filePath)"
  unfolding downloadFile_def downloadFile_body_def Let_def
  by (auto intro!: adds_rules split: response.splits)

lemma adds_uploadFile:
  "(\<And>c. P (Uploaded (storageBucket e) (storagePath storageFileName) c)) \<Longrightarrow>
   adds P (uploadFile e filePath storageFileName)"
  unfolding uploadFile_def uploadFile_body_def
  by (auto intro!: adds_rules)


lemma adds_getAudioDuration: "P (Probed audioPath) \<Longrightarrow> adds P (getAudioDuration e audioPath)"
  unfolding getAudioDuration_def
  apply (intro adds_rules)
  apply (rule addsI)
  apply (simp add: tick_def emit_def split: sum.splits)
  done

lemma adds_createVideo:
  "(\<And>t. P (EngineRun [imagePath, audioPath] t (Render duration subtitlesPath))) \<Longrightarrow>
   adds P (createVideo e imagePath audioPath outputPath duration subtitlesPath)"
  unfolding createVideo_def
  by (auto intro!: adds_rules)

lemma adds_merge:
  "(\<And>t j. P (EngineRun videoFiles t j)) \<Longrightarrow>
   adds P (mergeVideosWithTransition e videoFiles outputPath d)"
  unfolding mergeVideosWithTransition_def
  by (auto intro!: adds_rules)

lemma adds_cleanupTempFiles: "adds P (cleanupTempFiles e dirs)"
  unfolding cleanupTempFiles_def
  by (auto intro!: adds_rules adds_forEach)

lemma adds_cleanupVideoFiles: "adds P (cleanupVideoFiles e videoId)"
  unfolding cleanupVideoFiles_def
  by (auto intro!: adds_rules adds_existing_dirs adds_cleanupTempFiles
      split: option.splits prod.splits)

lemma upload_key_is_simps [simp]:
  "upload_key_is k (Uploaded b k' c) = (k' = k)"
  "upload_key_is k (Fetched u)"
  "upload_key_is k (SegmentUpdated i url st)"
  "upload_key_is k (VideoUpdated v st' url)"
  "upload_key_is k (Probed p)"
  "upload_key_is k (EngineRun ins out j)"
  "upload_key_is k (CleanupScheduled v)"
  "upload_key_is k (Archived n)"
  by (simp_all add: upload_key_is_def)

lemma url_iff_completed_simps [simp]:
  "url_iff_completed (SegmentUpdated i url st) = ((url \<noteq> None) = (st = Some completed))"
  "url_iff_completed (Uploaded b k' c)"
  "url_iff_completed (Fetched u)"
  "url_iff_completed (VideoUpdated v st' url')"
  "url_iff_completed (Probed p)"
  "url_iff_completed (EngineRun ins out j)"
  "url_iff_completed (CleanupScheduled v)"
  "url_iff_completed (Archived n)"
  by (simp_all add: url_iff_completed_def)

lemma url_without_status_simps [simp]:
  "url_without_status (SegmentUpdated i url st) = (url \<noteq> None \<and> st = None)"
  "url_without_status (Uploaded b k' c)"
  "url_without_status (Fetched u)"
  "url_without_status (VideoUpdated v st' url')"
  "url_without_status (Probed p)"
  "url_without_status (EngineRun ins out j)"
  "url_without_status (CleanupScheduled v)"
  "url_without_status (Archived n)"
  by (simp_all add: url_without_status_def)

lemma uploads_workspace:
  "adds (upload_key_is (storagePath (segment_key story segmentId)))
     (processSegment_workspace e segmentId i a story)"
  unfolding processSegment_workspace_def processSegment_steps_def Let_def
  by (auto intro!: adds_rules adds_downloadFile adds_getAudioDuration adds_createVideo
      adds_uploadFile)

lemma uploads_merge_try:
  "adds (upload_key_is (finalized_key videoId)) (merge_try e videoId ordered)"
proof -
  have sp: "storagePath (finalized_key videoId) = finalized_key videoId"
    by (simp add: storagePath_def finalized_key_def)
  have dl: "adds (upload_key_is (finalized_key videoId)) (download_clips e dir segs)" for dir segs
    by (induction segs) (auto intro!: adds_rules adds_downloadFile)
  have up: "adds (upload_key_is (finalized_key videoId)) (updateVideoStatus e videoId st u)" for st u
    unfolding updateVideoStatus_def by (auto intro!: adds_rules)
  show ?thesis
    unfolding merge_try_def
    by (auto intro!: adds_rules adds_merge adds_uploadFile dl up simp: sp)
qed

lemma uploads_merge_fallback:
  "adds (upload_key_is (fallback_key videoId)) (merge_fallback e videoId ordered)"
proof -
  have sp: "storagePath (fallback_key videoId) = fallback_key videoId"
    by (simp add: storagePath_def fallback_key_def)
  have up: "adds (upload_key_is (fallback_key videoId)) (updateVideoStatus e videoId st u)" for st u
    unfolding updateVideoStatus_def by (auto intro!: adds_rules)
  show ?thesis
    unfolding merge_fallback_def
    by (auto intro!: adds_rules adds_downloadFile adds_uploadFile up simp: sp split: list.splits)
qed


lemma adds_processSegment:
  assumes "\<And>u. P (Fetched u)" and "\<And>p. P (Probed p)" and "\<And>ins out j. P (EngineRun ins out j)"
    and "\<And>b k c. P (Uploaded b k c)"
  shows "adds P (processSegment e segmentId)"
  unfolding processSegment_def processSegment_body_def processSegment_workspace_def
    processSegment_steps_def Let_def
  by (auto intro!: adds_rules adds_downloadFile adds_getAudioDuration adds_createVideo
      adds_uploadFile assms split: option.splits prod.splits)

lemma adds_updateVideoStatus:
  "(\<And>u. P (VideoUpdated videoId st u)) \<Longrightarrow> adds P (updateVideoStatus e videoId st url)"
  unfolding updateVideoStatus_def by (auto intro!: adds_rules)

lemma updates_process_one: "adds url_iff_completed (process_one e segment vars)"
  unfolding process_one_def segment_failed_def Let_def
  by (auto intro!: adds_rules adds_processSegment simp: truthy_def split: option.splits)

lemma updates_segment_loop: "adds url_iff_completed (segment_loop e segments vars)"
  by (induction segments arbitrary: vars) (auto intro!: adds_rules updates_process_one)

lemma updates_merge_phase: "adds url_iff_completed (merge_phase e videoId processed)"
proof -
  have dl: "adds url_iff_completed (download_clips e dir segs)" for dir segs
    by (induction segs) (auto intro!: adds_rules adds_downloadFile)
  show ?thesis
    unfolding merge_phase_def merge_try_def merge_fallback_def
    by (auto intro!: adds_rules adds_merge adds_uploadFile adds_downloadFile
        adds_updateVideoStatus dl split: list.splits)
qed

lemma updates_processVideo: "adds url_iff_completed (processVideo e videoId)"
  unfolding processVideo_def processVideo_body_def process_segments_def
  by (auto intro!: adds_rules adds_updateVideoStatus adds_cleanupVideoFiles
      adds_cleanupTempFiles updates_segment_loop updates_merge_phase
      split: option.splits prod.splits)

lemma updates_handler: "adds url_without_status (handler e)"
  unfolding handler_def handle_segment_def
  by (auto intro!: adds_rules adds_processSegment simp: truthy_def
      split: option.splits prod.splits list.splits payload.splits)

section \<open>Updates of Segment rows\<close>

text \<open>
  C2, as stated, fails for the standalone queue handler: after a successful
  processSegment it updates the row with \<open>{ videoURL }\<close> alone. The videoURL is written
  and the status is not set to completed (it is not written at all).
\<close>

theorem c2_handler_writes_url_without_status:
  "fst (handler demo_env state0) =
     Returns \<lparr>statusCode = 200,
              body = [(''message'', ''Successfully processed segment g''),
                      (''videoURL'', ''https://st/videos/s/g.mp4'')]\<rparr>
   \<and> SegmentUpdated ''g'' (Some ''https://st/videos/s/g.mp4'') None
       \<in> set (trace (snd (handler demo_env state0)))"
  by (simp add: eval_defs cong: old.prod.case_cong_weak)

text \<open>
  C2, amended: every update of a Segment row that processVideo issues writes a videoURL
  exactly when it sets the status to completed (videoURL with completed on success, the
  status failed alone on failure). Every update of a Segment row that the standalone
  handler issues writes a videoURL and no status.
\<close>

theorem c2_segment_updates:
  "adds url_iff_completed (processVideo e videoId) \<and> adds url_without_status (handler e)"
  by (intro conjI updates_processVideo updates_handler)

text \<open>An instance: in the concrete world, started with an empty trace, every event of a
  run of processVideo and every event of a run of the handler is of the stated kind.\<close>

theorem c2_segment_updates_witness:
  "list_all url_iff_completed (trace (snd (processVideo demo_env ''v'' state0)))
   \<and> list_all url_without_status (trace (snd (handler demo_env state0)))"
proof -
  have t0: "trace state0 = []" by (simp add: state0_def)
  from c2_segment_updates [of demo_env "''v''"]
  have a: "adds url_iff_completed (processVideo demo_env ''v'')"
    and b: "adds url_without_status (handler demo_env)" by blast+
  from addsD [OF a, of state0] addsD [OF b, of state0] t0 show ?thesis by auto
qed

section \<open>Storage keys\<close>

text \<open>
  C8, as stated, fails: for story \<open>s\<close> and segment \<open>g\<close> the name processSegment passes is
  \<open>s/g.mp4\<close>, and uploadFile does not store the object under the name it is passed but
  under \<open>videos/s/g.mp4\<close>. The key is neither \<open>{storyId}/{segmentId}\<close> nor the
  storageFileName of the call.
\<close>

theorem c8_clip_key_has_prefix_and_extension:
  "segment_key ''s'' ''g'' = ''s/g.mp4''
   \<and> fst (uploadFile demo_env [''tmp'', ''out.mp4''] (segment_key ''s'' ''g'') state_clip)
       = Returns (Some ''https://st/videos/s/g.mp4'')
   \<and> trace (snd (uploadFile demo_env [''tmp'', ''out.mp4''] (segment_key ''s'' ''g'') state_clip))
       = [Uploaded ''bucket'' ''videos/s/g.mp4'' ''mp4'']"
  by (simp add: eval_defs state_clip_def cong: old.prod.case_cong_weak)

text \<open>
  C8, amended: uploadFile stores the object under storageFileName itself when that name
  starts with \<open>finalized-videos/\<close>, and under \<open>videos/\<close> followed by storageFileName
  otherwise. Every upload made for a segment is stored under the key that rule gives for
  \<open>{storyId}/{segmentId}.mp4\<close>; every upload of the merge is stored under
  \<open>finalized-videos/{videoId}.mp4\<close>, and every upload of the fallback under
  \<open>finalized-videos/{videoId}_fallback.mp4\<close>.
\<close>

theorem c8_storage_keys:
  "adds (upload_key_is (storagePath storageFileName)) (uploadFile e filePath storageFileName)
   \<and> storagePath storageFileName =
       (if prefix ''finalized-videos/'' storageFileName then storageFileName
        else ''videos/'' @ storageFileName)
   \<and> adds (upload_key_is (storagePath (story @ ''/'' @ segmentId @ ''.mp4'')))
        (processSegment_workspace e segmentId i a story)
   \<and> adds (upload_key_is (''finalized-videos/'' @ videoId @ ''.mp4''))
        (merge_try e videoId ordered)
   \<and> adds (upload_key_is (''finalized-videos/'' @ videoId @ ''_fallback.mp4''))
        (merge_fallback e videoId ordered)"
  using uploads_workspace [of story segmentId e i a] uploads_merge_try [of videoId e ordered]
    uploads_merge_fallback [of videoId e ordered]
  by (auto intro!: adds_uploadFile simp: storagePath_def segment_key_def finalized_key_def
      fallback_key_def)

section \<open>The sweep of orphaned directories\<close>

lemma completesI: "(\<And>s x. fst (m s) \<noteq> Escapes x) \<Longrightarrow> completes m"
  by (simp add: completes_def)

lemma completesD: "completes m \<Longrightarrow> fst (m s) \<noteq> Escapes x"
  by (simp add: completes_def)

lemma completes_ret: "completes (ret a)"
  by (simp add: completes_def ret_def)

lemma completes_throw: "completes (throw x)"
  by (simp add: completes_def throw_def)

lemma completes_andThen:
  "completes m \<Longrightarrow> (\<And>a. completes (f a)) \<Longrightarrow> completes (andThen m f)"
  by (auto simp: completes_def andThen_def split: prod.splits completion.splits)
     (metis fst_conv)+

lemma completes_tryCatch:
  "completes m \<Longrightarrow> (\<And>x. completes (h x)) \<Longrightarrow> completes (tryCatch m h)"
  by (auto simp: completes_def tryCatch_def split: prod.splits completion.splits)
     (metis fst_conv)+

lemma completes_if:
  "(c \<Longrightarrow> completes a) \<Longrightarrow> (\<not> c \<Longrightarrow> completes b) \<Longrightarrow> completes (if c then a else b)"
  by simp

lemma completes_exists_io: "completes (exists_io p)"
  by (simp add: completes_def exists_io_def)

lemma completes_Date_now: "completes (Date_now e)"
  by (simp add: completes_def Date_now_def)

lemma completes_readdirSync: "completes (readdirSync e p)"
  by (simp add: completes_def readdirSync_def)

lemma completes_statSync: "completes (statSync e p)"
  by (simp add: completes_def statSync_def split: option.splits node.splits)

lemma completes_rmSync: "completes (rmSync e p)"
  by (simp add: completes_def rmSync_def)

lemmas completes_rules = completes_ret completes_throw completes_andThen completes_tryCatch
  completes_exists_io completes_Date_now completes_readdirSync completes_statSync
  completes_rmSync























subsection \<open>A failure ends the sweep\<close>





















subsection \<open>Without a failure the sweep is complete\<close>






section \<open>Video orchestrator: three runs of processVideo\<close>

text \<open>
  The concrete world with one answer changed: the download of the segment's clip is
  answered 404; the upload of the merged file is rejected; the merge fails in the engine
  and the download of the fallback clip fails in the network.
\<close>

lemma run_clip_404:
  "processVideo env_clip_404 ''v'' state0 =
   (Returns None,
    \<lparr>step = 37,
     fs = [([''tmp''], Dir 0), ([''tmp'', ''processing''], Dir 3),
           ([''tmp'', ''downloads''], Dir 7),
           ([''tmp'', ''downloads'', ''9_image.jpg''], File 11 ''bytes''),
           ([''tmp'', ''downloads'', ''14_audio.mp3''], File 16 ''bytes''),
           ([''tmp'', ''logs''], Dir 21),
           ([''tmp'', ''logs'', ''ffmpeg-22.log''], File 23 []),
           ([''tmp'', ''processing'', ''output.mp4''], File 25 ''mp4''),
           ([''tmp'', ''processing'', ''v''], Dir 32)],
     trace =
       [VideoUpdated ''v'' pending None, Fetched ''https://i'',
        Fetched ''https://a'',
        Probed [''tmp'', ''processing'', ''g'', ''audio.mp3''],
        EngineRun
         [[''tmp'', ''processing'', ''g'', ''image.jpg''],
          [''tmp'', ''processing'', ''g'', ''audio.mp3'']]
         [''tmp'', ''processing'', ''output.mp4''] (Render 1 None),
        Uploaded ''bucket'' ''videos/s/g.mp4'' ''mp4'',
        SegmentUpdated ''g'' (Some ''https://st/videos/s/g.mp4'')
         (Some completed),
        Fetched ''https://st/videos/s/g.mp4'',
        VideoUpdated ''v'' failed None]\<rparr>)"
  by code_simp

lemma run_upload_rejected:
  "processVideo env_upload_rejected ''v'' state0 =
   (Returns None,
    \<lparr>step = 48,
     fs = [([''tmp''], Dir 0), ([''tmp'', ''processing''], Dir 3),
           ([''tmp'', ''downloads''], Dir 7),
           ([''tmp'', ''downloads'', ''9_image.jpg''], File 11 ''bytes''),
           ([''tmp'', ''downloads'', ''14_audio.mp3''], File 16 ''bytes''),
           ([''tmp'', ''logs''], Dir 21),
           ([''tmp'', ''logs'', ''ffmpeg-22.log''], File 23 []),
           ([''tmp'', ''processing'', ''output.mp4''], File 25 ''mp4''),
           ([''tmp'', ''processing'', ''v''], Dir 32),
           ([''tmp'', ''downloads'', ''34_segment_g.mp4''],
            File 36 ''bytes''),
           ([''tmp'', ''processing'', ''v'', ''segment_g.mp4''],
            File 37 ''bytes''),
           ([''tmp'', ''logs'', ''ffmpeg-merge-40.log''], File 41 []),
           ([''tmp'', ''processing'', ''v.mp4''], File 43 ''mp4''),
           ([''tmp'', ''processing'', ''v'', ''v.mp4''], File 44 ''mp4'')],
     trace =
       [VideoUpdated ''v'' pending None, Fetched ''https://i'',
        Fetched ''https://a'',
        Probed [''tmp'', ''processing'', ''g'', ''audio.mp3''],
        EngineRun
         [[''tmp'', ''processing'', ''g'', ''image.jpg''],
          [''tmp'', ''processing'', ''g'', ''audio.mp3'']]
         [''tmp'', ''processing'', ''output.mp4''] (Render 1 None),
        Uploaded ''bucket'' ''videos/s/g.mp4'' ''mp4'',
        SegmentUpdated ''g'' (Some ''https://st/videos/s/g.mp4'')
         (Some completed),
        Fetched ''https://st/videos/s/g.mp4'',
        EngineRun [[''tmp'', ''processing'', ''v'', ''segment_g.mp4'']]
         [''tmp'', ''processing'', ''v.mp4''] StreamCopy,
        Uploaded ''bucket'' ''finalized-videos/v.mp4'' ''mp4'',
        VideoUpdated ''v'' failed None]\<rparr>)"
  by code_simp

lemma run_merge_fails:
  "processVideo env_merge_fails ''v'' state0 =
   (Returns None,
    \<lparr>step = 49,
     fs = [([''tmp''], Dir 0), ([''tmp'', ''processing''], Dir 3),
           ([''tmp'', ''downloads''], Dir 7),
           ([''tmp'', ''downloads'', ''9_image.jpg''], File 11 ''bytes''),
           ([''tmp'', ''downloads'', ''14_audio.mp3''], File 16 ''bytes''),
           ([''tmp'', ''logs''], Dir 21),
           ([''tmp'', ''logs'', ''ffmpeg-22.log''], File 23 []),
           ([''tmp'', ''processing'', ''output.mp4''], File 25 ''mp4''),
           ([''tmp'', ''processing'', ''v''], Dir 32),
           ([''tmp'', ''downloads'', ''34_segment_g.mp4''],
            File 36 ''bytes''),
           ([''tmp'', ''processing'', ''v'', ''segment_g.mp4''],
            File 37 ''bytes''),
           ([''tmp'', ''logs'', ''ffmpeg-merge-40.log''], File 41 []),
           ([''tmp'', ''processing'', ''v_fallback''], Dir 44)],
     trace =
       [VideoUpdated ''v'' pending None, Fetched ''https://i'',
        Fetched ''https://a'',
        Probed [''tmp'', ''processing'', ''g'', ''audio.mp3''],
        EngineRun
         [[''tmp'', ''processing'', ''g'', ''image.jpg''],
          [''tmp'', ''processing'', ''g'', ''audio.mp3'']]
         [''tmp'', ''processing'', ''output.mp4''] (Render 1 None),
        Uploaded ''bucket'' ''videos/s/g.mp4'' ''mp4'',
        SegmentUpdated ''g'' (Some ''https://st/videos/s/g.mp4'')
         (Some completed),
        Fetched ''https://st/videos/s/g.mp4'',
        EngineRun [[''tmp'', ''processing'', ''v'', ''segment_g.mp4'']]
         [''tmp'', ''processing'', ''v.mp4''] StreamCopy,
        Fetched ''https://st/videos/s/g.mp4'',
        VideoUpdated ''v'' failed (Some ''https://st/videos/s/g.mp4''),
        CleanupScheduled ''v'']\<rparr>)"
  by code_simp

lemma demo_dirs:
  "videoTempDir env_clip_404 ''v'' = [''tmp'', ''processing'', ''v'']"
  "videoTempDir env_upload_rejected ''v'' = [''tmp'', ''processing'', ''v'']"
  by (simp_all add: videoTempDir_def processingRoot_def processingDir_def env_clip_404_def
      env_upload_rejected_def demo_env_def)

text \<open>
  C1 at two inputs the code can receive. When no clip downloads (the early return of
  line 338) and when the upload of the merged file fails (the early return of line 368),
  processVideo returns null, the directory it created at line 301 is still there (in the
  second run with the merged file in it), and no cleanup has been scheduled. The
  workspace invariant of the specification asks for a removal, or a scheduled removal,
  on these exits as on every other.
\<close>

theorem c1_workspace_left_at_early_returns:
  "fst (processVideo env_clip_404 ''v'' state0) = Returns None
   \<and> existsSync (videoTempDir env_clip_404 ''v'') (snd (processVideo env_clip_404 ''v'' state0))
   \<and> CleanupScheduled ''v'' \<notin> set (trace (snd (processVideo env_clip_404 ''v'' state0)))
   \<and> fst (processVideo env_upload_rejected ''v'' state0) = Returns None
   \<and> existsSync (videoTempDir env_upload_rejected ''v'')
        (snd (processVideo env_upload_rejected ''v'' state0))
   \<and> existsSync (videoTempDir env_upload_rejected ''v'' @ [''v.mp4''])
        (snd (processVideo env_upload_rejected ''v'' state0))
   \<and> CleanupScheduled ''v'' \<notin> set (trace (snd (processVideo env_upload_rejected ''v'' state0)))"
  unfolding demo_dirs run_clip_404 run_upload_rejected
  by (simp add: existsSync_def lookup_def)

section \<open>Video orchestrator: the fallback\<close>

text \<open>
  C4, as stated, fails: the merge throws, the download of the fallback clip fails (no
  file is in the fallback directory), and the Video is still updated to failed together
  with the URL of the first segment's clip; processVideo returns null, the merge error
  is not surfaced.
\<close>

theorem c4_failed_fallback_download_stores_url:
  "fst (processVideo env_merge_fails ''v'' state0) = Returns None
   \<and> drop 8 (trace (snd (processVideo env_merge_fails ''v'' state0))) =
       [EngineRun [[''tmp'', ''processing'', ''v'', ''segment_g.mp4'']]
          [''tmp'', ''processing'', ''v.mp4''] StreamCopy,
        Fetched ''https://st/videos/s/g.mp4'',
        VideoUpdated ''v'' failed (Some ''https://st/videos/s/g.mp4''),
        CleanupScheduled ''v'']
   \<and> lookup (fs (snd (processVideo env_merge_fails ''v'' state0)))
        [''tmp'', ''processing'', ''v_fallback'', ''segment_fallback.mp4''] = None"
  unfolding run_merge_fails
  by (simp add: lookup_def)

lemma completes_mkdirSync: "completes (mkdirSync e p)"
  by (simp add: completes_def mkdirSync_def split: option.splits)

lemma completes_do_fetch: "completes (do_fetch e url)"
  by (simp add: completes_def do_fetch_def split: response.splits)

lemma completes_writeFileSync: "completes (writeFileSync e p c)"
  by (simp add: completes_def writeFileSync_def)

lemma completes_copyFileSync: "completes (copyFileSync e p q)"
  by (simp add: completes_def copyFileSync_def split: option.splits node.splits)

lemma completes_readFileSync: "completes (readFileSync e p)"
  by (simp add: completes_def readFileSync_def split: option.splits node.splits)

lemma completes_storage_put: "completes (storage_put e k c)"
  by (simp add: completes_def storage_put_def split: option.splits)

lemma completes_video_update: "completes (video_update e v st u)"
  by (simp add: completes_def video_update_def split: reply.splits)

lemma caught_returns:
  assumes "completes m"
  shows "\<exists>r. fst (tryCatch m (\<lambda>error. ret a) s) = Returns r"
  using completesD [OF assms, of s]
  by (cases "m s"; cases "fst (m s)") (auto simp: tryCatch_def ret_def)

lemma downloadFile_returns: "\<exists>b. fst (downloadFile e url filePath s) = Returns b"
  unfolding downloadFile_def
  by (rule caught_returns)
     (auto simp: downloadFile_body_def Let_def
       intro!: completes_rules completes_mkdirSync completes_do_fetch completes_writeFileSync
         completes_copyFileSync split: response.splits)

lemma uploadFile_returns: "\<exists>r. fst (uploadFile e filePath name s) = Returns r"
  unfolding uploadFile_def
  by (rule caught_returns)
     (auto simp: uploadFile_body_def
       intro!: completes_rules completes_readFileSync completes_storage_put)

lemma updateVideoStatus_run:
  assumes "supabasePublic e"
  shows "fst (updateVideoStatus e videoId st url s) = Returns ()"
    and "trace (snd (updateVideoStatus e videoId st url s))
           = trace s @ [VideoUpdated videoId st (if truthy url then url else None)]"
  using assms
  by (auto simp: updateVideoStatus_def tryCatch_def andThen_def video_update_def ret_def
      tick_def emit_def split: reply.splits)

lemma updateVideoStatus_returns: "fst (updateVideoStatus e videoId st url s) = Returns ()"
proof -
  have "completes (if \<not> supabasePublic e then throw ''Supabase client is not initialized''
        else andThen (video_update e videoId st (if truthy url then url else None))
               (\<lambda>error. ret ()))"
    by (auto intro!: completes_rules completes_video_update)
  from caught_returns [OF this, of "()" s] show ?thesis
    by (simp add: updateVideoStatus_def)
qed

lemma trace_grows: "adds (\<lambda>ev. True) m \<Longrightarrow> \<exists>evs. trace (snd (m s)) = trace s @ evs"
  by (auto simp: adds_def)

lemma fallback_run:
  assumes sb: "supabasePublic e" and url: "ps_videoURL first_segment \<noteq> []"
    and mk: "fst (mkdirSync e (processingRoot e @ [videoId @ ''_fallback'']) s) = Returns ()"
  shows "fst (merge_fallback e videoId (first_segment # others) s) = Returns None"
    and "\<exists>evs. trace (snd (merge_fallback e videoId (first_segment # others) s))
           = trace s @ evs @ [VideoUpdated videoId failed (Some (ps_videoURL first_segment)),
                             CleanupScheduled videoId]"
proof -
  let ?dir = "processingRoot e @ [videoId @ ''_fallback'']"
  let ?file = "processingRoot e @ [videoId @ ''_fallback'', ''segment_fallback.mp4'']"
  let ?u = "ps_videoURL first_segment"
  obtain s1 where s1: "mkdirSync e ?dir s = (Returns (), s1)"
    using mk by (cases "mkdirSync e ?dir s") simp
  obtain b s2 where s2: "downloadFile e ?u ?file s1 = (Returns b, s2)"
    using downloadFile_returns [of e ?u ?file s1] by (cases "downloadFile e ?u ?file s1") auto
  let ?up = "if b then andThen (uploadFile e ?file (fallback_key videoId)) (\<lambda>_. ret ())
             else ret ()"
  have "\<exists>s3. ?up s2 = (Returns (), s3)"
  proof (cases b)
    case True
    obtain r t where "uploadFile e ?file (fallback_key videoId) s2 = (Returns r, t)"
      using uploadFile_returns [of e ?file "fallback_key videoId" s2]
      by (cases "uploadFile e ?file (fallback_key videoId) s2") auto
    with True show ?thesis by (simp add: andThen_def ret_def)
  next
    case False
    then show ?thesis by (simp add: ret_def)
  qed
  then obtain s3 where s3: "?up s2 = (Returns (), s3)" ..
  obtain s4 where s4: "updateVideoStatus e videoId failed (Some ?u) s3 = (Returns (), s4)"
    using updateVideoStatus_returns [of e videoId failed "Some ?u" s3]
    by (cases "updateVideoStatus e videoId failed (Some ?u) s3") simp
  have t4: "trace s4 = trace s3 @ [VideoUpdated videoId failed (Some ?u)]"
    using updateVideoStatus_run(2) [OF sb, of videoId failed "Some ?u" s3] s4 url
    by (simp add: truthy_def)
  have run: "merge_fallback e videoId (first_segment # others) s
               = (Returns None, emit (CleanupScheduled videoId) s4)"
    by (simp add: merge_fallback_def tryCatch_def andThen_def s1 s2 s3 s4 schedule_cleanup_def
        ret_def)
  show "fst (merge_fallback e videoId (first_segment # others) s) = Returns None"
    by (simp add: run)
  have "adds (\<lambda>ev. True) (mkdirSync e ?dir)"
    by (rule adds_mkdirSync)
  from trace_grows [OF this, of s] s1 have "\<exists>evs. trace s1 = trace s @ evs"
    by simp
  moreover have "adds (\<lambda>ev. True) (downloadFile e ?u ?file)"
    by (rule adds_downloadFile) simp
  from trace_grows [OF this, of s1] s2 have "\<exists>evs. trace s2 = trace s1 @ evs"
    by simp
  moreover have "\<exists>evs. trace s3 = trace s2 @ evs"
  proof -
    have "adds (\<lambda>ev. True) ?up"
      by (auto intro!: adds_rules adds_uploadFile)
    from trace_grows [OF this, of s2] s3 show ?thesis by simp
  qed
  ultimately obtain evs where "trace s3 = trace s @ evs" by auto
  with t4 show "\<exists>evs. trace (snd (merge_fallback e videoId (first_segment # others) s))
           = trace s @ evs @ [VideoUpdated videoId failed (Some ?u), CleanupScheduled videoId]"
    by (simp add: run emit_def)
qed

lemma processVideo_never_throws: "fst (processVideo e videoId s) \<noteq> Throws x"
proof -
  let ?h = "andThen (tryCatch (cleanupVideoFiles e videoId) (\<lambda>cleanupError. ret ())) (\<lambda>_.
          andThen (tryCatch (updateVideoStatus e videoId failed None) (\<lambda>updateError. ret ()))
            (\<lambda>_. ret None))"
  have h: "fst (?h t) \<noteq> Throws x" for t :: state
  proof -
    obtain r1 t1 where a: "tryCatch (cleanupVideoFiles e videoId) (\<lambda>cleanupError. ret ()) t = (r1, t1)"
      by (cases "tryCatch (cleanupVideoFiles e videoId) (\<lambda>cleanupError. ret ()) t")
    have r1: "r1 \<noteq> Throws y" for y
      using tryCatch_never_throws [of "cleanupVideoFiles e videoId" "()" t y] a by simp
    obtain r2 t2 where b: "tryCatch (updateVideoStatus e videoId failed None)
                             (\<lambda>updateError. ret ()) t1 = (r2, t2)"
      by (cases "tryCatch (updateVideoStatus e videoId failed None) (\<lambda>updateError. ret ()) t1")
    have r2: "r2 \<noteq> Throws y" for y
      using tryCatch_never_throws [of "updateVideoStatus e videoId failed None" "()" t1 y] b
      by simp
    show ?thesis
      using a b r1 r2 by (cases r1; cases r2) (auto simp: andThen_def ret_def)
  qed
  show ?thesis
    using h
    by (cases "processVideo_body e videoId s"; cases "fst (processVideo_body e videoId s)")
       (auto simp: processVideo_def tryCatch_def)
qed

lemma fallback_without_directory:
  assumes sb: "supabasePublic e"
    and mk: "fst (mkdirSync e (processingRoot e @ [videoId @ ''_fallback'']) s) = Throws x"
  shows "fst (merge_fallback e videoId (first_segment # others) s) = Throws x"
    and "trace (snd (merge_fallback e videoId (first_segment # others) s))
           = trace s @ [VideoUpdated videoId failed None]"
proof -
  let ?dir = "processingRoot e @ [videoId @ ''_fallback'']"
  obtain s1 where s1: "mkdirSync e ?dir s = (Throws x, s1)"
    using mk by (cases "mkdirSync e ?dir s") simp
  have t1: "trace s1 = trace s"
    using s1 by (auto simp: mkdirSync_def tick_def split: if_splits option.splits)
  obtain s2 where s2: "updateVideoStatus e videoId failed None s1 = (Returns (), s2)"
    using updateVideoStatus_returns [of e videoId failed None s1]
    by (cases "updateVideoStatus e videoId failed None s1") simp
  have t2: "trace s2 = trace s1 @ [VideoUpdated videoId failed None]"
    using updateVideoStatus_run(2) [OF sb, of videoId failed None s1] s2
    by (simp add: truthy_def)
  have run: "merge_fallback e videoId (first_segment # others) s = (Throws x, s2)"
    by (simp add: merge_fallback_def tryCatch_def andThen_def s1 s2 throw_def)
  show "fst (merge_fallback e videoId (first_segment # others) s) = Throws x"
    by (simp add: run)
  show "trace (snd (merge_fallback e videoId (first_segment # others) s))
           = trace s @ [VideoUpdated videoId failed None]"
    by (simp add: run t1 t2)
qed

text \<open>
  C4, amended: processVideo never throws, so the merge error is never surfaced to the
  caller. In the fallback (the catch block of the merge), once the fallback directory has
  been created, the Video is marked failed with the URL of the first processed segment's
  clip, the cleanup is scheduled and null is returned, whatever the outcome of the
  fallback download and upload. The Video is marked failed with no URL when the fallback
  directory cannot be created; that error is rethrown to the top-level handler.
\<close>

theorem c4_fallback_stores_first_clip_url:
  "(\<forall>x. fst (processVideo e videoId s) \<noteq> Throws x)
   \<and> (supabasePublic e \<and> ps_videoURL first_segment \<noteq> []
        \<and> fst (mkdirSync e (processingRoot e @ [videoId @ ''_fallback'']) s) = Returns ()
       \<longrightarrow> fst (merge_fallback e videoId (first_segment # others) s) = Returns None
         \<and> (\<exists>evs. trace (snd (merge_fallback e videoId (first_segment # others) s))
                = trace s @ evs
                   @ [VideoUpdated videoId failed (Some (ps_videoURL first_segment)),
                      CleanupScheduled videoId]))
   \<and> (supabasePublic e
        \<and> fst (mkdirSync e (processingRoot e @ [videoId @ ''_fallback'']) s) = Throws y
       \<longrightarrow> fst (merge_fallback e videoId (first_segment # others) s) = Throws y
         \<and> trace (snd (merge_fallback e videoId (first_segment # others) s))
             = trace s @ [VideoUpdated videoId failed None])"
  using processVideo_never_throws [of e videoId s]
    fallback_run [of e first_segment videoId s others]
    fallback_without_directory [of e videoId s y first_segment others]
  by blast

text \<open>An instance of each case: a network that rejects the fallback download, and a
  filesystem that refuses to create the fallback directory.\<close>

theorem c4_fallback_witness:
  "fst (merge_fallback env_offline ''v''
          [\<lparr>ps_id = ''g'', ps_videoURL = ''https://st/videos/s/g.mp4'', ps_sortedIndex = 0\<rparr>]
          state0) = Returns None
   \<and> (\<exists>evs. trace (snd (merge_fallback env_offline ''v''
          [\<lparr>ps_id = ''g'', ps_videoURL = ''https://st/videos/s/g.mp4'', ps_sortedIndex = 0\<rparr>]
          state0))
        = trace state0 @ evs
           @ [VideoUpdated ''v'' failed (Some ''https://st/videos/s/g.mp4''),
              CleanupScheduled ''v''])
   \<and> fst (merge_fallback env_no_mkdir ''v''
          [\<lparr>ps_id = ''g'', ps_videoURL = ''https://st/videos/s/g.mp4'', ps_sortedIndex = 0\<rparr>]
          state0) = Throws ''mkdir failed''
   \<and> trace (snd (merge_fallback env_no_mkdir ''v''
          [\<lparr>ps_id = ''g'', ps_videoURL = ''https://st/videos/s/g.mp4'', ps_sortedIndex = 0\<rparr>]
          state0))
        = trace state0 @ [VideoUpdated ''v'' failed None]"
proof -
  have h: "supabasePublic env_offline"
    "ps_videoURL \<lparr>ps_id = ''g'', ps_videoURL = ''https://st/videos/s/g.mp4'',
                  ps_sortedIndex = 0\<rparr> \<noteq> []"
    "fst (mkdirSync env_offline (processingRoot env_offline @ [''v'' @ ''_fallback'']) state0)
       = Returns ()"
    by (simp_all add: eval_defs env_offline_def)
  have k: "supabasePublic env_no_mkdir"
    "fst (mkdirSync env_no_mkdir (processingRoot env_no_mkdir @ [''v'' @ ''_fallback'']) state0)
       = Throws ''mkdir failed''"
    by (simp_all add: eval_defs env_no_mkdir_def)
  from c4_fallback_stores_first_clip_url
         [of env_offline "''v''" state0
            "\<lparr>ps_id = ''g'', ps_videoURL = ''https://st/videos/s/g.mp4'', ps_sortedIndex = 0\<rparr>"
            "[]"] h
  have a: "fst (merge_fallback env_offline ''v''
          [\<lparr>ps_id = ''g'', ps_videoURL = ''https://st/videos/s/g.mp4'', ps_sortedIndex = 0\<rparr>]
          state0) = Returns None
   \<and> (\<exists>evs. trace (snd (merge_fallback env_offline ''v''
          [\<lparr>ps_id = ''g'', ps_videoURL = ''https://st/videos/s/g.mp4'', ps_sortedIndex = 0\<rparr>]
          state0))
        = trace state0 @ evs
           @ [VideoUpdated ''v'' failed (Some ''https://st/videos/s/g.mp4''),
              CleanupScheduled ''v''])"
    by simp
  from c4_fallback_stores_first_clip_url
         [of env_no_mkdir "''v''" state0
            "\<lparr>ps_id = ''g'', ps_videoURL = ''https://st/videos/s/g.mp4'', ps_sortedIndex = 0\<rparr>"
            "[]" "''mkdir failed''"] k
  have b: "fst (merge_fallback env_no_mkdir ''v''
          [\<lparr>ps_id = ''g'', ps_videoURL = ''https://st/videos/s/g.mp4'', ps_sortedIndex = 0\<rparr>]
          state0) = Throws ''mkdir failed''
   \<and> trace (snd (merge_fallback env_no_mkdir ''v''
          [\<lparr>ps_id = ''g'', ps_videoURL = ''https://st/videos/s/g.mp4'', ps_sortedIndex = 0\<rparr>]
          state0))
        = trace state0 @ [VideoUpdated ''v'' failed None]"
    by simp
  from a b show ?thesis by blast
qed

section \<open>Merge with no input\<close>

text \<open>
  C7: mergeVideosWithTransition with an empty list of inputs throws at once. The state
  is untouched: the engine has not been run (the trace is the same) and no file or
  directory has been created, at the output path, in the processing directory or
  anywhere else.
\<close>

theorem c7_merge_without_inputs_throws:
  "mergeVideosWithTransition e [] outputPath transitionDuration s =
     (Throws ''No video files provided for merging'', s)"
  by (simp add: mergeVideosWithTransition_def tryCatch_def throw_def)

section \<open>Progress normalisation: the sequence of the specification\<close>

text \<open>
  C5, as stated, fails: after the readings 0, 0, 0, 50, 90 the two zeros that follow are
  not taken as a new phase. The last reported value is 90, below the 99 that a reset
  requires, so both zeros are dropped as noise: nothing is printed for them, the
  high-water mark stays at 90 and inNewProcess stays false.
\<close>

theorem c5_zeros_after_90_are_noise:
  "\<not> (inNewProcess (snd (feed [0, 0, 0, 50, 90, 0, 0] initial_progress))
       \<or> highestSeenPercentage (snd (feed [0, 0, 0, 50, 90, 0, 0] initial_progress)) = 0
       \<or> drop 5 (fst (feed [0, 0, 0, 50, 90, 0, 0] initial_progress)) \<noteq> [None, None])"
  by (simp add: logProgress_def track_zero_def initial_progress_def Let_def)

text \<open>
  C5, amended: fed 0, 0, 0, 50, 90, 0, 0, 5, 100 from its initial state, the normaliser
  prints the three early zeros, then 50 and 90; it prints nothing for the two zeros after
  90 (noise, no reset) and nothing for the 5 (replaced by the last reported 90, which is
  no change); it finally prints 100. What is printed is exactly 0, 0, 0, 50, 90, 100.
\<close>

theorem c5_sequence_printed:
  "fst (feed [0, 0, 0, 50, 90, 0, 0, 5, 100] initial_progress) =
     [Some 0, Some 0, Some 0, Some 50, Some 90, None, None, None, Some 100]
   \<and> emitted (fst (feed [0, 0, 0, 50, 90, 0, 0, 5, 100] initial_progress)) =
       [0, 0, 0, 50, 90, 100]
   \<and> highestSeenPercentage (snd (feed [0, 0, 0, 50, 90, 0, 0, 5, 100] initial_progress)) = 100"
  by (simp add: logProgress_def track_zero_def initial_progress_def emitted_def Let_def)

end
